theory Spec2Isabelle
  imports Main "HOL-Library.Sublist" "HOL-Library.Multiset"
begin

section \<open>Python values\<close>

text \<open>
  A Python \<open>str\<close> is a sequence of Unicode code points, so it is modelled as a list of
  natural numbers; \<open>ascii ''abc''\<close> is the string whose code points are those of the
  ASCII literal. Length, slicing, \<open>in\<close> and iteration then count what Python counts.
\<close>

type_synonym pstr = "nat list"

definition ascii :: "string \<Rightarrow> pstr" where
  "ascii s = map of_char s"

text \<open>
  The values \<open>json.loads\<close> produces. Python dictionaries keep insertion order, so an
  object is an association list. JSON numbers with a fraction or an exponent (Python
  floats) are outside the embedding.
\<close>

datatype json =
    JNull
  | JBool bool
  | JInt int
  | JStr pstr
  | JArr "json list"
  | JObj "(pstr \<times> json) list"

datatype error =
    NetworkError
  | KeyError
  | TypeError
  | AttributeError
  | FileNotFoundError
  | OSError
  | JSONDecodeError
  | OperationalError
  | ProgrammingError
  | OverflowError
  | UnicodeEncodeError
  | DataError
  | IntegrityError

text \<open>
  Library functions that the repository calls but does not define. \<open>loads\<close> is
  \<open>json.loads\<close> (\<open>None\<close> when it raises), \<open>dumps\<close> is \<open>json.dumps(_, ensure_ascii=False)\<close>,
  \<open>lower\<close> is \<open>str.lower\<close>, \<open>repr\<close> is \<open>repr\<close> on lists and dictionaries, and \<open>set_order\<close>
  gives the order in which a \<open>set\<close> built from the given distinct elements is iterated.
  That order belongs to the running process: the hash of a string changes from one
  run of the interpreter to the next, so two runs of a script are two such records,
  which may differ in \<open>set_order\<close>.
\<close>

record builtins =
  loads :: "pstr \<Rightarrow> json option"
  dumps :: "json \<Rightarrow> pstr"
  lower :: "pstr \<Rightarrow> pstr"
  repr :: "json \<Rightarrow> pstr"
  set_order :: "json list \<Rightarrow> json list"

text \<open>Truth value of a Python object, as \<open>if x\<close>, \<open>x or y\<close> and \<open>not x\<close> test it.\<close>

fun truthy :: "json \<Rightarrow> bool" where
  "truthy JNull = False"
| "truthy (JBool b) = b"
| "truthy (JInt i) = (i \<noteq> 0)"
| "truthy (JStr s) = (s \<noteq> [])"
| "truthy (JArr xs) = (xs \<noteq> [])"
| "truthy (JObj kvs) = (kvs \<noteq> [])"

definition py_or :: "json \<Rightarrow> json \<Rightarrow> json" where
  "py_or a b = (if truthy a then a else b)"

text \<open>\<open>d.get(k, default)\<close>; \<open>None\<close> stands for the AttributeError on a non-dictionary.\<close>

definition lookup_default :: "(pstr \<times> json) list \<Rightarrow> pstr \<Rightarrow> json \<Rightarrow> json" where
  "lookup_default kvs k dflt = (case map_of kvs k of None \<Rightarrow> dflt | Some v \<Rightarrow> v)"

fun dict_get :: "json \<Rightarrow> pstr \<Rightarrow> json \<Rightarrow> json option" where
  "dict_get (JObj kvs) k dflt = Some (lookup_default kvs k dflt)"
| "dict_get _ k dflt = None"

text \<open>\<open>d[k]\<close>: KeyError on a missing key, TypeError on a non-dictionary.\<close>

fun dict_item :: "json \<Rightarrow> pstr \<Rightarrow> error + json" where
  "dict_item (JObj kvs) k = (case map_of kvs k of None \<Rightarrow> Inl KeyError | Some v \<Rightarrow> Inr v)"
| "dict_item _ k = Inl TypeError"

text \<open>\<open>d[k] = v\<close> on a dictionary: an existing key keeps its place, a new one goes last.\<close>

fun assoc_set :: "(pstr \<times> json) list \<Rightarrow> pstr \<Rightarrow> json \<Rightarrow> (pstr \<times> json) list" where
  "assoc_set [] k v = [(k, v)]"
| "assoc_set ((k', v') # kvs) k v =
     (if k' = k then (k, v) # kvs else (k', v') # assoc_set kvs k v)"

fun dict_set :: "json \<Rightarrow> pstr \<Rightarrow> json \<Rightarrow> json option" where
  "dict_set (JObj kvs) k v = Some (JObj (assoc_set kvs k v))"
| "dict_set _ k v = None"

text \<open>Decimal digits of an integer, as \<open>str\<close> prints it.\<close>

fun digits :: "nat \<Rightarrow> pstr" where
  "digits n = (if n < 10 then [48 + n] else digits (n div 10) @ [48 + n mod 10])"

declare digits.simps [simp del]

definition str_int :: "int \<Rightarrow> pstr" where
  "str_int i = (if i < 0 then 45 # digits (nat (- i)) else digits (nat i))"

text \<open>\<open>str(x)\<close>, which is also what an f-string field \<open>{x}\<close> inserts.\<close>

fun py_str :: "builtins \<Rightarrow> json \<Rightarrow> pstr" where
  "py_str B JNull = ascii ''None''"
| "py_str B (JBool b) = (if b then ascii ''True'' else ascii ''False'')"
| "py_str B (JInt i) = str_int i"
| "py_str B (JStr s) = s"
| "py_str B v = repr B v"

text \<open>\<open>isspace\<close>: the code points that \<open>str.split()\<close> and \<open>str.strip()\<close> treat as whitespace.\<close>

definition is_space :: "nat \<Rightarrow> bool" where
  "is_space c = (c \<in> set [9, 10, 11, 12, 13, 28, 29, 30, 31, 32, 133, 160, 5760,
     8192, 8193, 8194, 8195, 8196, 8197, 8198, 8199, 8200, 8201, 8202,
     8232, 8233, 8239, 8287, 12288])"

definition strip :: "pstr \<Rightarrow> pstr" where
  "strip s = rev (dropWhile is_space (rev (dropWhile is_space s)))"

text \<open>\<open>s.split()\<close>: the maximal runs of non-whitespace; \<open>w\<close> is the run being read.\<close>

fun split_aux :: "pstr \<Rightarrow> pstr \<Rightarrow> pstr list" where
  "split_aux w [] = (if w = [] then [] else [w])"
| "split_aux w (c # cs) =
     (if is_space c then (if w = [] then split_aux [] cs else w # split_aux [] cs)
      else split_aux (w @ [c]) cs)"

definition split :: "pstr \<Rightarrow> pstr list" where
  "split s = split_aux [] s"

section \<open>The index store (src/core/eve_db.py)\<close>

text \<open>
  One row of the table \<open>items\<close>. All six columns are declared TEXT; \<open>id\<close>, \<open>source_file\<close>,
  \<open>search_text\<close> and \<open>json_data\<close> are always bound to strings, the two name columns to
  whatever the record holds, stored as text or NULL.
\<close>

record row =
  row_id :: pstr
  source_file :: pstr
  name_zh :: "pstr option"
  name_en :: "pstr option"
  search_text :: pstr
  json_data :: pstr

text \<open>The dictionary \<open>search\<close> builds for each row it returns.\<close>

record result =
  res_id :: pstr
  res_file_name :: pstr
  res_name_zh :: "pstr option"
  res_name_en :: "pstr option"
  res_json_data :: pstr

text \<open>
  What sqlite3 does with a \<open>str\<close> that it binds to a parameter: the string is encoded
  as UTF-8, which raises for a surrogate code point, and SQLite refuses a text of more
  than \<open>10^9\<close> bytes.
\<close>

definition surrogate :: "nat \<Rightarrow> bool" where
  "surrogate c = (55296 \<le> c \<and> c \<le> 57343)"

definition utf8_len :: "pstr \<Rightarrow> nat" where
  "utf8_len s =
     sum_list (map (\<lambda>c. if c < 128 then 1 else if c < 2048 then 2 else if c < 65536 then 3 else 4) s)"

definition bind_str :: "pstr \<Rightarrow> error + pstr" where
  "bind_str s =
     (if list_ex surrogate s then Inl UnicodeEncodeError
      else if utf8_len s > 1000000000 then Inl DataError
      else Inr s)"

fun bind_all :: "pstr list \<Rightarrow> error + pstr list" where
  "bind_all [] = Inr []"
| "bind_all (p # ps) =
     (case bind_str p of
        Inl e \<Rightarrow> Inl e
      | Inr b \<Rightarrow> (case bind_all ps of Inl e \<Rightarrow> Inl e | Inr bs \<Rightarrow> Inr (b # bs)))"

text \<open>
  SQLite's \<open>LIKE\<close> without an ESCAPE clause: \<open>%\<close> (37) matches any run of characters,
  \<open>_\<close> (95) matches any one character, and any other character matches itself, the
  ASCII letters regardless of case. The pattern and the text are read as C strings,
  each up to its first NUL character. A pattern of more than 50000 bytes makes the
  function raise.
\<close>

definition c_str :: "pstr \<Rightarrow> pstr" where
  "c_str s = takeWhile (\<lambda>c. c \<noteq> 0) s"

definition ascii_fold :: "nat \<Rightarrow> nat" where
  "ascii_fold c = (if 65 \<le> c \<and> c \<le> 90 then c + 32 else c)"

fun pattern_compare :: "pstr \<Rightarrow> pstr \<Rightarrow> bool" where
  "pattern_compare [] s = (s = [])"
| "pattern_compare (p # ps) [] = (p = 37 \<and> pattern_compare ps [])"
| "pattern_compare (p # ps) (c # cs) =
     (if p = 37 then pattern_compare ps (c # cs) \<or> pattern_compare (p # ps) cs
      else (p = 95 \<or> ascii_fold p = ascii_fold c) \<and> pattern_compare ps cs)"

definition like :: "pstr \<Rightarrow> pstr \<Rightarrow> bool" where
  "like pattern s = pattern_compare (c_str pattern) (c_str s)"

text \<open>
  The \<open>WHERE\<close> clause on one row: the conditions are evaluated from the left, and the
  first that is false ends the evaluation.
\<close>

fun where_clause :: "pstr list \<Rightarrow> pstr \<Rightarrow> error + bool" where
  "where_clause [] s = Inr True"
| "where_clause (p # ps) s =
     (if utf8_len p > 50000 then Inl OperationalError
      else if like p s then where_clause ps s
      else Inr False)"

text \<open>
  The scan of the table under \<open>LIMIT n\<close>: rows are read in table order until \<open>n\<close> rows
  have been returned; a negative \<open>n\<close> is no limit.
\<close>

fun fetch :: "pstr list \<Rightarrow> int \<Rightarrow> row list \<Rightarrow> error + row list" where
  "fetch params n [] = Inr []"
| "fetch params n (r # rs) =
     (if n = 0 then Inr []
      else case where_clause params (search_text r) of
        Inl e \<Rightarrow> Inl e
      | Inr ok \<Rightarrow>
          if ok
          then (case fetch params (n - 1) rs of Inl e \<Rightarrow> Inl e | Inr out \<Rightarrow> Inr (r # out))
          else fetch params n rs)"

text \<open>
  The statement \<open>search\<close> sends to SQLite: \<open>SELECT * FROM items WHERE\<close>, the conditions
  joined by \<open>AND\<close>, \<open>LIMIT\<close> and the limit written out, with one bound parameter for each
  \<open>?\<close>. Preparing the statement fails when \<open>WHERE\<close> is followed by no expression (a
  syntax error) and when 1000 or more conditions are joined (the expression tree is too
  deep). Then the parameters are bound, in order. Then the statement runs: a limit
  that is not a 64-bit integer is a datatype mismatch, and the rows come back in table
  order. The only condition text the model reads is the one the code writes.
\<close>

definition select_items_where :: "row list \<Rightarrow> pstr list \<Rightarrow> pstr list \<Rightarrow> int \<Rightarrow> error + row list" where
  "select_items_where items conditions params limit =
     (if conditions = [] then Inl OperationalError
      else if \<not> list_all (\<lambda>c. c = ascii ''search_text LIKE ?'') conditions then Inl OperationalError
      else if length conditions \<ge> 1000 then Inl OperationalError
      else if length params \<noteq> length conditions then Inl ProgrammingError
      else case bind_all params of
        Inl e \<Rightarrow> Inl e
      | Inr bound \<Rightarrow>
          if \<not> (- (2 ^ 63) \<le> limit \<and> limit < 2 ^ 63) then Inl IntegrityError
          else fetch bound limit items)"

definition result_of_row :: "row \<Rightarrow> result" where
  "result_of_row r = \<lparr>res_id = row_id r, res_file_name = source_file r,
     res_name_zh = name_zh r, res_name_en = name_en r, res_json_data = json_data r\<rparr>"

text \<open>\<open>EveDB.search\<close>: the keywords, one condition and one parameter \<open>%kw%\<close> for each.\<close>

definition search_keywords :: "builtins \<Rightarrow> pstr \<Rightarrow> pstr list" where
  "search_keywords B keyword = split (strip (lower B keyword))"

definition search :: "builtins \<Rightarrow> row list \<Rightarrow> pstr \<Rightarrow> int \<Rightarrow> error + result list" where
  "search B items keyword limit =
     (let keywords = search_keywords B keyword;
          conditions = map (\<lambda>kw. ascii ''search_text LIKE ?'') keywords;
          params = map (\<lambda>kw. [37] @ kw @ [37]) keywords
      in case select_items_where items conditions params limit of
           Inl e \<Rightarrow> Inl e
         | Inr rows \<Rightarrow> Inr (map result_of_row rows))"

text \<open>
  \<open>SearchWorker.run\<close> of src/gui/main_window.py, as the list of signals it emits. The
  store is \<open>None\<close> when the database file does not exist. No \<open>stop()\<close> request arrives
  while it runs.
\<close>

datatype search_event =
    result_found pstr pstr "pstr option" "pstr option" pstr
  | finished nat
  | error_no_index
  | error_no_snapshot
  | error_raised error

definition emit_result :: "result \<Rightarrow> search_event" where
  "emit_result res = result_found (res_file_name res) (res_id res) (res_name_zh res)
     (res_name_en res) (res_json_data res)"

definition SearchWorker_run :: "builtins \<Rightarrow> row list option \<Rightarrow> pstr \<Rightarrow> search_event list" where
  "SearchWorker_run B store keyword =
     (case store of
        None \<Rightarrow> [error_no_index]
      | Some items \<Rightarrow>
          (case search B items keyword 1000 of
             Inl e \<Rightarrow> [error_raised e]
           | Inr results \<Rightarrow> map emit_result results @ [finished (length results)]))"

text \<open>The predicates the statements about \<open>search\<close> use.\<close>

definition no_wildcard :: "pstr \<Rightarrow> bool" where
  "no_wildcard t = (\<forall>c\<in>set t. c \<noteq> 37 \<and> c \<noteq> 95)"

definition no_upper :: "pstr \<Rightarrow> bool" where
  "no_upper s = (\<forall>c\<in>set s. \<not> (65 \<le> c \<and> c \<le> 90))"

text \<open>The rows of the table that satisfy the \<open>WHERE\<close> clause of \<open>search\<close>, uncapped.\<close>

definition matching_rows :: "builtins \<Rightarrow> row list \<Rightarrow> pstr \<Rightarrow> row list" where
  "matching_rows B items keyword =
     filter (\<lambda>r. \<forall>kw\<in>set (search_keywords B keyword). like ([37] @ kw @ [37]) (search_text r)) items"

text \<open>The first rows of a list under \<open>LIMIT n\<close>.\<close>

definition sql_limit :: "int \<Rightarrow> 'a list \<Rightarrow> 'a list" where
  "sql_limit n xs = (if n < 0 then xs else take (nat n) xs)"

text \<open>
  The keywords that SQLite takes: at least one token and fewer than 1000, each of which
  can be encoded and gives a pattern \<open>%kw%\<close> of at most 50000 bytes. And a string in
  which \<open>LIKE\<close> reads every character.
\<close>

definition searchable :: "builtins \<Rightarrow> pstr \<Rightarrow> bool" where
  "searchable B keyword =
     (search_keywords B keyword \<noteq> [] \<and> length (search_keywords B keyword) < 1000 \<and>
      (\<forall>kw\<in>set (search_keywords B keyword). \<not> list_ex surrogate kw \<and> utf8_len kw + 2 \<le> 50000))"

definition no_nul :: "pstr \<Rightarrow> bool" where
  "no_nul s = (0 \<notin> set s)"

section \<open>Building the index (src/core/eve_db.py, src/gui/main_window.py)\<close>

text \<open>
  A file of the snapshot directory: its lines, or a file that \<open>open\<close> cannot read. A
  directory lists its files in the order of \<open>os.listdir\<close>.
\<close>

datatype content = Readable "pstr list" | Unreadable

type_synonym directory = "(pstr \<times> content) list"

text \<open>
  A connection: the committed table and the table as the open transaction sees it.
  Closing a connection drops what was not committed.
\<close>

record conn =
  committed :: "row list"
  current :: "row list"

definition connect :: "row list \<Rightarrow> conn" where
  "connect items = \<lparr>committed = items, current = items\<rparr>"

definition commit :: "conn \<Rightarrow> conn" where
  "commit c = c\<lparr>committed := current c\<rparr>"

definition rollback :: "conn \<Rightarrow> conn" where
  "rollback c = c\<lparr>current := committed c\<rparr>"

definition close :: "conn \<Rightarrow> row list" where
  "close c = committed c"

text \<open>\<open>init_db\<close>: \<open>CREATE TABLE IF NOT EXISTS\<close>; the store is \<open>None\<close> before the file exists.\<close>

definition init_db :: "row list option \<Rightarrow> row list" where
  "init_db store = (case store of None \<Rightarrow> [] | Some items \<Rightarrow> items)"

text \<open>\<open>clear_db\<close>: \<open>DELETE FROM items\<close>, committed, then \<open>VACUUM\<close>.\<close>

definition clear_db :: "row list \<Rightarrow> row list" where
  "clear_db items = close (commit ((connect items)\<lparr>current := []\<rparr>))"

text \<open>The tuple \<open>build_index\<close> appends to its batch for one record.\<close>

record entry =
  e_id :: pstr
  e_file :: pstr
  e_name_zh :: json
  e_name_en :: json
  e_search_text :: pstr
  e_json :: pstr

text \<open>
  What sqlite3 stores in a TEXT column for a bound Python value: NULL for \<open>None\<close>, the
  text itself, an integer as its decimal text; a list or a dictionary cannot be bound
  (ProgrammingError; InterfaceError before Python 3.11), nor an integer outside 64 bits,
  nor a string that cannot be encoded or is too long.
\<close>

fun sql_text :: "json \<Rightarrow> error + pstr option" where
  "sql_text JNull = Inr None"
| "sql_text (JBool b) = Inr (Some (if b then ascii ''1'' else ascii ''0''))"
| "sql_text (JInt i) =
     (if - (2 ^ 63) \<le> i \<and> i < 2 ^ 63 then Inr (Some (str_int i)) else Inl OverflowError)"
| "sql_text (JStr s) = (case bind_str s of Inl err \<Rightarrow> Inl err | Inr t \<Rightarrow> Inr (Some t))"
| "sql_text (JArr xs) = Inl ProgrammingError"
| "sql_text (JObj kvs) = Inl ProgrammingError"

text \<open>
  The size of the record that SQLite makes of a row: one byte for the length of the
  header, for each column the bytes of its serial type (a variable-length integer, 0
  for NULL and \<open>2n + 13\<close> for a text of \<open>n\<close> bytes), and the bytes of the texts. A record
  of more than \<open>10^9\<close> bytes is refused. No text is longer than that, so a serial type
  takes at most five bytes. The entries of the three indexes hold one column and the
  row number and are shorter than the record, whose file name ends in \<open>.jsonl\<close>.
\<close>

definition varint_len :: "nat \<Rightarrow> nat" where
  "varint_len n =
     (if n < 128 then 1 else if n < 16384 then 2 else if n < 2097152 then 3
      else if n < 268435456 then 4 else 5)"

definition column_size :: "pstr option \<Rightarrow> nat" where
  "column_size v = (case v of None \<Rightarrow> 1 | Some s \<Rightarrow> varint_len (2 * utf8_len s + 13) + utf8_len s)"

definition record_size :: "row \<Rightarrow> nat" where
  "record_size r =
     1 + column_size (Some (row_id r)) + column_size (Some (source_file r))
       + column_size (name_zh r) + column_size (name_en r)
       + column_size (Some (search_text r)) + column_size (Some (json_data r))"

text \<open>
  One row of the INSERT: the six parameters are bound in order, then the row is stored.
\<close>

definition bind_entry :: "entry \<Rightarrow> error + row" where
  "bind_entry e =
     (case bind_str (e_id e) of
        Inl err \<Rightarrow> Inl err
      | Inr i \<Rightarrow>
     (case bind_str (e_file e) of
        Inl err \<Rightarrow> Inl err
      | Inr f \<Rightarrow>
     (case sql_text (e_name_zh e) of
        Inl err \<Rightarrow> Inl err
      | Inr zh \<Rightarrow>
     (case sql_text (e_name_en e) of
        Inl err \<Rightarrow> Inl err
      | Inr en \<Rightarrow>
     (case bind_str (e_search_text e) of
        Inl err \<Rightarrow> Inl err
      | Inr t \<Rightarrow>
     (case bind_str (e_json e) of
        Inl err \<Rightarrow> Inl err
      | Inr j \<Rightarrow>
          (let r = \<lparr>row_id = i, source_file = f, name_zh = zh, name_en = en,
                     search_text = t, json_data = j\<rparr>
           in if record_size r > 1000000000 then Inl DataError else Inr r)))))))"

text \<open>
  \<open>executemany\<close> of the INSERT: the rows go in one by one; the first that cannot be
  bound raises, and the rows before it stay in the open transaction.
\<close>

fun executemany :: "conn \<Rightarrow> entry list \<Rightarrow> conn \<times> error option" where
  "executemany c [] = (c, None)"
| "executemany c (e # es) =
     (case bind_entry e of
        Inl err \<Rightarrow> (c, Some err)
      | Inr r \<Rightarrow> executemany (c\<lparr>current := current c @ [r]\<rparr>) es)"

text \<open>\<open>data.get("_key") or data.get("id") or data.get("typeID")\<close>, on a dictionary.\<close>

definition resolve_id :: "(pstr \<times> json) list \<Rightarrow> json" where
  "resolve_id kvs =
     py_or (py_or (lookup_default kvs (ascii ''_key'') JNull) (lookup_default kvs (ascii ''id'') JNull))
       (lookup_default kvs (ascii ''typeID'') JNull)"

text \<open>The pair \<open>(name_en, name_zh)\<close> read from \<open>data.get("name", {})\<close>.\<close>

fun resolve_names :: "json \<Rightarrow> json \<times> json" where
  "resolve_names (JObj nkvs) =
     (lookup_default nkvs (ascii ''en'') (JStr []), lookup_default nkvs (ascii ''zh'') (JStr []))"
| "resolve_names (JStr s) = (JStr s, JStr s)"
| "resolve_names _ = (JStr [], JStr [])"

text \<open>
  The body of the inner \<open>try\<close> of \<open>build_index\<close> up to \<open>batch.append\<close>; \<open>None\<close> when it
  raises (the line does not parse, or does not hold a dictionary).
\<close>

definition index_record :: "builtins \<Rightarrow> pstr \<Rightarrow> pstr \<Rightarrow> entry option" where
  "index_record B file_name line =
     (case loads B line of
        Some (JObj kvs) \<Rightarrow>
          (let item_id = resolve_id kvs;
               item_id_str = (if item_id \<noteq> JNull then py_str B item_id else []);
               (en, zh) = resolve_names (lookup_default kvs (ascii ''name'') (JObj []));
               text = lower B (item_id_str @ [32] @ py_str B zh @ [32] @ py_str B en)
           in Some \<lparr>e_id = item_id_str, e_file = file_name, e_name_zh = zh,
                e_name_en = en, e_search_text = text, e_json = strip line\<rparr>)
      | _ \<Rightarrow> None)"

text \<open>
  The loop over the lines of one file, with the batch and the connection as its state.
  A failing \<open>executemany\<close> inside the \<open>try\<close> is swallowed and leaves the batch as it is.
\<close>

fun index_lines :: "builtins \<Rightarrow> pstr \<Rightarrow> pstr list \<Rightarrow> entry list \<Rightarrow> conn \<Rightarrow> entry list \<times> conn" where
  "index_lines B file_name [] batch c = (batch, c)"
| "index_lines B file_name (line # lines) batch c =
     (case index_record B file_name line of
        None \<Rightarrow> index_lines B file_name lines batch c
      | Some e \<Rightarrow>
          (if length (batch @ [e]) \<ge> 1000
           then (case executemany c (batch @ [e]) of
                   (c', None) \<Rightarrow> index_lines B file_name lines [] c'
                 | (c', Some err) \<Rightarrow> index_lines B file_name lines (batch @ [e]) c')
           else index_lines B file_name lines (batch @ [e]) c))"

text \<open>The loop over the files; the error, if any, is the one that leaves the loop.\<close>

fun index_files :: "builtins \<Rightarrow> directory \<Rightarrow> conn \<Rightarrow> conn \<times> error option" where
  "index_files B [] c = (c, None)"
| "index_files B ((file_name, f) # files) c =
     (case f of
        Unreadable \<Rightarrow> (c, Some OSError)
      | Readable lines \<Rightarrow>
          (case index_lines B file_name lines [] c of
             (batch, c') \<Rightarrow>
               (if batch \<noteq> []
                then (case executemany c' batch of
                        (c'', None) \<Rightarrow> index_files B files c''
                      | (c'', Some err) \<Rightarrow> (c'', Some err))
                else index_files B files c')))"

text \<open>
  \<open>EveDB.build_index\<close>: the table afterwards, and \<open>True\<close> or the exception raised. The
  snapshot directory is \<open>None\<close> when it does not exist.
\<close>

definition build_index :: "builtins \<Rightarrow> row list \<Rightarrow> directory option \<Rightarrow> row list \<times> (error + bool)" where
  "build_index B items sde_dir =
     (let c = connect items in
      case sde_dir of
        None \<Rightarrow> (close (rollback c), Inl FileNotFoundError)
      | Some dir \<Rightarrow>
          (let files = filter (\<lambda>(f, content). suffix (ascii ''.jsonl'') f) dir in
           case index_files B files c of
             (c', None) \<Rightarrow> (close (commit c'), Inr True)
           | (c', Some err) \<Rightarrow> (close (rollback c'), Inl err)))"

text \<open>
  \<open>IndexWorker.run\<close>: the store afterwards and the flag of the \<open>finished\<close> signal.
\<close>

definition IndexWorker_run :: "builtins \<Rightarrow> directory option \<Rightarrow> row list option \<Rightarrow> row list option \<times> bool" where
  "IndexWorker_run B sde_dir store =
     (let items = clear_db (init_db store) in
      case sde_dir of
        None \<Rightarrow> (Some items, False)
      | Some dir \<Rightarrow>
          (case build_index B items sde_dir of
             (items', Inr ok) \<Rightarrow> (Some items', True)
           | (items', Inl err) \<Rightarrow> (Some items', False)))"

section \<open>Search without an index (src/eve_search_gui.py)\<close>

text \<open>
  \<open>char in iterator\<close> reads the iterator up to and including the first occurrence of
  \<open>char\<close> and leaves the rest; \<open>all(char in iterator for char in kw)\<close> stops at the first
  character that is not found.
\<close>

fun iter_find :: "nat \<Rightarrow> pstr \<Rightarrow> pstr option" where
  "iter_find ch [] = None"
| "iter_find ch (x # xs) = (if x = ch then Some xs else iter_find ch xs)"

fun all_in_iterator :: "pstr \<Rightarrow> pstr \<Rightarrow> bool" where
  "all_in_iterator [] it = True"
| "all_in_iterator (ch # kw) it =
     (case iter_find ch it of None \<Rightarrow> False | Some it' \<Rightarrow> all_in_iterator kw it')"

text \<open>One keyword against the text: the substring test, then the subsequence test.\<close>

definition kw_matches :: "pstr \<Rightarrow> pstr \<Rightarrow> bool" where
  "kw_matches full_text kw = (if sublist kw full_text then True else all_in_iterator kw full_text)"

text \<open>\<open>(name_en + " " + name_zh).lower()\<close>; the sum raises unless both are strings.\<close>

fun full_text :: "builtins \<Rightarrow> json \<Rightarrow> json \<Rightarrow> pstr option" where
  "full_text B (JStr en) (JStr zh) = Some (lower B (en @ [32] @ zh))"
| "full_text B _ _ = None"

text \<open>
  The body of the inner \<open>try\<close> of the scan: the signal emitted for the line, or \<open>None\<close>
  when the line does not match or an exception skips it.
\<close>

definition scan_record :: "builtins \<Rightarrow> pstr list \<Rightarrow> pstr \<Rightarrow> pstr \<Rightarrow> search_event option" where
  "scan_record B keywords_list file_name line =
     (case loads B line of
        Some (JObj kvs) \<Rightarrow>
          (let item_id = resolve_id kvs;
               (en, zh) = resolve_names (lookup_default kvs (ascii ''name'') (JObj []))
           in case full_text B en zh of
                None \<Rightarrow> None
              | Some text \<Rightarrow>
                  (if list_all (kw_matches text) keywords_list
                   then Some (result_found file_name
                          (if item_id \<noteq> JNull then py_str B item_id else ascii ''N/A'')
                          (Some (py_str B zh)) (Some (py_str B en)) (strip line))
                   else None))
      | _ \<Rightarrow> None)"

definition scan_file :: "builtins \<Rightarrow> pstr list \<Rightarrow> pstr \<times> content \<Rightarrow> search_event list" where
  "scan_file B keywords_list nf =
     (case snd nf of
        Unreadable \<Rightarrow> []
      | Readable lines \<Rightarrow> List.map_filter (scan_record B keywords_list (fst nf)) lines)"

text \<open>
  \<open>SearchWorker.run\<close> of src/eve_search_gui.py, as the list of signals it emits, with no
  \<open>stop()\<close> request while it runs.
\<close>

definition scan_keywords :: "builtins \<Rightarrow> pstr \<Rightarrow> pstr list" where
  "scan_keywords B keyword = split (lower B keyword)"

definition SearchWorker_run_scan :: "builtins \<Rightarrow> directory option \<Rightarrow> pstr \<Rightarrow> search_event list" where
  "SearchWorker_run_scan B sde_dir keyword =
     (case sde_dir of
        None \<Rightarrow> [error_no_snapshot]
      | Some dir \<Rightarrow>
          (let files = filter (\<lambda>(f, content). suffix (ascii ''.jsonl'') f) dir;
               found = concat (map (scan_file B (scan_keywords B keyword)) files)
           in found @ [finished (length found)]))"

section \<open>The index row as the specification describes it\<close>

text \<open>
  The text a TEXT column holds for a bound value, and whether the value can be bound.
\<close>

definition column :: "json \<Rightarrow> pstr option" where
  "column v = (case sql_text v of Inr x \<Rightarrow> x | Inl err \<Rightarrow> None)"

definition storable :: "json \<Rightarrow> bool" where
  "storable v = (case sql_text v of Inr x \<Rightarrow> True | Inl err \<Rightarrow> False)"

text \<open>
  The row of the specification for one record, read from its words: the id is the first
  of \<open>_key\<close>, \<open>id\<close>, \<open>typeID\<close> that the record holds; of a name that is a mapping the
  sub-key of the locale is taken, a plain string serves both locales; the search text is
  the lowered \<open>id + " " + name_zh + " " + name_en\<close>. A record that holds none of the three
  fields is given the empty id.
\<close>

definition described_id :: "builtins \<Rightarrow> (pstr \<times> json) list \<Rightarrow> pstr" where
  "described_id B kvs =
     (let k = lookup_default kvs (ascii ''_key'') JNull;
          i = lookup_default kvs (ascii ''id'') JNull;
          t = lookup_default kvs (ascii ''typeID'') JNull
      in if k \<noteq> JNull then py_str B k
         else if i \<noteq> JNull then py_str B i
         else if t \<noteq> JNull then py_str B t
         else [])"

definition described_name :: "pstr \<Rightarrow> (pstr \<times> json) list \<Rightarrow> json" where
  "described_name locale kvs =
     (case lookup_default kvs (ascii ''name'') (JObj []) of
        JObj names \<Rightarrow> lookup_default names locale (JStr [])
      | JStr s \<Rightarrow> JStr s
      | _ \<Rightarrow> JStr [])"

definition described_row :: "builtins \<Rightarrow> pstr \<Rightarrow> pstr \<Rightarrow> row option" where
  "described_row B file_name line =
     (case loads B line of
        Some (JObj kvs) \<Rightarrow>
          Some \<lparr>row_id = described_id B kvs, source_file = file_name,
            name_zh = column (described_name (ascii ''zh'') kvs),
            name_en = column (described_name (ascii ''en'') kvs),
            search_text = lower B (described_id B kvs @ [32]
              @ py_str B (described_name (ascii ''zh'') kvs) @ [32]
              @ py_str B (described_name (ascii ''en'') kvs)),
            json_data = strip line\<rparr>
      | _ \<Rightarrow> None)"

text \<open>
  The records the description is about: each id field is absent (or null) or holds a
  value that Python counts as true.
\<close>

definition id_field_ok :: "json \<Rightarrow> bool" where
  "id_field_ok v = (v = JNull \<or> truthy v)"

definition id_fields_ok :: "builtins \<Rightarrow> pstr \<Rightarrow> bool" where
  "id_fields_ok B line =
     (case loads B line of
        Some (JObj kvs) \<Rightarrow>
          id_field_ok (lookup_default kvs (ascii ''_key'') JNull) \<and>
          id_field_ok (lookup_default kvs (ascii ''id'') JNull) \<and>
          id_field_ok (lookup_default kvs (ascii ''typeID'') JNull)
      | _ \<Rightarrow> True)"

text \<open>
  The records of a snapshot, each with the name of its file: the lines of the \<open>.jsonl\<close>
  files that parse to a dictionary, in order.
\<close>

definition is_record :: "builtins \<Rightarrow> pstr \<Rightarrow> bool" where
  "is_record B line = (case loads B line of Some (JObj kvs) \<Rightarrow> True | _ \<Rightarrow> False)"

definition records :: "builtins \<Rightarrow> directory \<Rightarrow> (pstr \<times> pstr) list" where
  "records B dir =
     concat (map (\<lambda>(f, content). case content of
                     Readable lines \<Rightarrow> map (Pair f) (filter (is_record B) lines)
                   | Unreadable \<Rightarrow> [])
               (filter (\<lambda>(f, content). suffix (ascii ''.jsonl'') f) dir))"

text \<open>
  The row that binding an entry gives when it succeeds, and the entries for which it
  does: every string can be encoded and is of at most \<open>10^9\<close> bytes, the names can be
  stored, and the record is of at most \<open>10^9\<close> bytes.
\<close>

definition entry_row :: "entry \<Rightarrow> row" where
  "entry_row e = \<lparr>row_id = e_id e, source_file = e_file e, name_zh = column (e_name_zh e),
     name_en = column (e_name_en e), search_text = e_search_text e, json_data = e_json e\<rparr>"

definition bindable :: "pstr \<Rightarrow> bool" where
  "bindable s = (\<not> list_ex surrogate s \<and> utf8_len s \<le> 1000000000)"

definition entry_ok :: "entry \<Rightarrow> bool" where
  "entry_ok e =
     (bindable (e_id e) \<and> bindable (e_file e) \<and> storable (e_name_zh e) \<and> storable (e_name_en e) \<and>
      bindable (e_search_text e) \<and> bindable (e_json e) \<and> record_size (entry_row e) \<le> 1000000000)"

text \<open>
  The snapshots that can be indexed: every \<open>.jsonl\<close> file can be read, and the entry of
  every record can be stored. One record that cannot be stored makes the whole build
  fail.
\<close>

definition storable_line :: "builtins \<Rightarrow> pstr \<Rightarrow> pstr \<Rightarrow> bool" where
  "storable_line B f line = (case index_record B f line of None \<Rightarrow> True | Some e \<Rightarrow> entry_ok e)"

definition indexable :: "builtins \<Rightarrow> directory \<Rightarrow> bool" where
  "indexable B dir =
     (\<forall>(f, content)\<in>set dir. suffix (ascii ''.jsonl'') f \<longrightarrow>
        (case content of
           Readable lines \<Rightarrow> \<forall>line\<in>set lines. storable_line B f line
         | Unreadable \<Rightarrow> False))"

text \<open>The rows that \<open>build_index\<close> makes of the records of a snapshot.\<close>

definition index_rows :: "builtins \<Rightarrow> directory \<Rightarrow> row list" where
  "index_rows B dir =
     concat (map (\<lambda>(f, content). case content of
                     Readable lines \<Rightarrow> map entry_row (List.map_filter (index_record B f) lines)
                   | Unreadable \<Rightarrow> [])
               (filter (\<lambda>(f, content). suffix (ascii ''.jsonl'') f) dir))"

section \<open>Change logs (src/core/eve_SDE.py, src/gui/main_window.py)\<close>

text \<open>
  Python's \<open>==\<close> on the values of the embedding: \<open>True\<close> and \<open>False\<close> equal \<open>1\<close> and \<open>0\<close>,
  lists are equal element by element, dictionaries when they hold equal values under
  the same keys, in any order.
\<close>

function (sequential) py_eq :: "json \<Rightarrow> json \<Rightarrow> bool" where
  "py_eq JNull v = (v = JNull)"
| "py_eq (JBool a) v =
     (case v of JBool b \<Rightarrow> a = b | JInt j \<Rightarrow> (if a then 1 else 0) = j | _ \<Rightarrow> False)"
| "py_eq (JInt i) v =
     (case v of JBool b \<Rightarrow> i = (if b then 1 else 0) | JInt j \<Rightarrow> i = j | _ \<Rightarrow> False)"
| "py_eq (JStr s) v = (v = JStr s)"
| "py_eq (JArr xs) v =
     (case v of JArr ys \<Rightarrow> length xs = length ys \<and> (\<forall>i < length xs. py_eq (xs ! i) (ys ! i))
      | _ \<Rightarrow> False)"
| "py_eq (JObj kvs) v =
     (case v of
        JObj kvs' \<Rightarrow> length kvs = length kvs' \<and>
          (\<forall>kv\<in>set kvs. case map_of kvs' (fst kv) of None \<Rightarrow> False | Some v' \<Rightarrow> py_eq (snd kv) v')
      | _ \<Rightarrow> False)"
  by pat_completeness auto

termination py_eq
proof (relation "measure (\<lambda>(a, b). size a)")
  show "wf (measure (\<lambda>(a, b). size a))" by simp
next
  fix xs :: "json list" and v ys i
  assume "i < length xs"
  then have "size (xs ! i) \<le> size_list size xs"
  proof (induction xs arbitrary: i)
    case Nil
    then show ?case by simp
  next
    case (Cons x xs)
    show ?case
    proof (cases i)
      case 0
      then show ?thesis by simp
    next
      case (Suc j)
      with Cons.prems have "j < length xs" by simp
      from Cons.IH [OF this] Suc show ?thesis by simp
    qed
  qed
  then show "((xs ! i, ys ! i), (JArr xs, v)) \<in> measure (\<lambda>(a, b). size a)" by simp
next
  fix kvs :: "(pstr \<times> json) list" and v kvs' kv v'
  assume "kv \<in> set kvs"
  then have "size (snd kv) \<le> size_list (\<lambda>x. Suc (size (snd x))) kvs"
    by (induction kvs) auto
  moreover have "size_prod (\<lambda>x. 0) size = (\<lambda>x::pstr \<times> json. Suc (size (snd x)))"
    by (auto simp: fun_eq_iff)
  ultimately show "((snd kv, v'), (JObj kvs, v)) \<in> measure (\<lambda>(a, b). size a)" by simp
qed
text \<open>
  \<open>set(x)\<close>: the elements of \<open>x\<close>, the first of each group of equal elements; \<open>None\<close> for
  the TypeError when \<open>x\<close> cannot be iterated or an element cannot be hashed. \<open>x in s\<close>
  on such a set hashes \<open>x\<close> first.
\<close>

fun hashable :: "json \<Rightarrow> bool" where
  "hashable (JArr xs) = False"
| "hashable (JObj kvs) = False"
| "hashable _ = True"

fun py_iter :: "json \<Rightarrow> json list option" where
  "py_iter (JArr xs) = Some xs"
| "py_iter (JStr s) = Some (map (\<lambda>c. JStr [c]) s)"
| "py_iter (JObj kvs) = Some (map (\<lambda>kv. JStr (fst kv)) kvs)"
| "py_iter _ = None"

fun set_elems :: "json list \<Rightarrow> json list" where
  "set_elems [] = []"
| "set_elems (x # xs) = x # filter (\<lambda>y. \<not> py_eq x y) (set_elems xs)"

definition py_set :: "json \<Rightarrow> json list option" where
  "py_set v =
     (case py_iter v of
        None \<Rightarrow> None
      | Some xs \<Rightarrow> if list_all hashable xs then Some (set_elems xs) else None)"

definition py_member :: "json \<Rightarrow> json list \<Rightarrow> bool" where
  "py_member x s = list_ex (py_eq x) s"

text \<open>
  The file system: the snapshot directory \<open>eve_sde_jsonl\<close> (\<open>None\<close> when it does not
  exist) and the files of \<open>eve_sde_update\<close> by name, each the list of the lines written
  to it. A table is looked up under the file name that its key spells.
\<close>

record fs =
  sde :: "directory option"
  updates :: "pstr \<Rightarrow> pstr list option"

text \<open>\<open>open(name, "w")\<close> and one \<open>open(name, "a")\<close> with its writes.\<close>

definition truncate_file :: "pstr \<Rightarrow> fs \<Rightarrow> fs" where
  "truncate_file name s = s\<lparr>updates := (updates s)(name \<mapsto> [])\<rparr>"

definition append_lines :: "pstr \<Rightarrow> pstr list \<Rightarrow> fs \<Rightarrow> fs" where
  "append_lines name ls s =
     s\<lparr>updates := (updates s)(name \<mapsto> (case updates s name of None \<Rightarrow> [] | Some old \<Rightarrow> old) @ ls)\<rparr>"

text \<open>
  The publisher: the body of \<open>latest.jsonl\<close> as \<open>response.json()\<close> returns it, the
  files of the archive, and the lines of the change manifest of a build; \<open>None\<close> when
  the request raises. An archive lists each file once.
\<close>

record upstream =
  latest :: "json option"
  archive :: "directory option"
  changes :: "pstr \<Rightarrow> pstr list option"

definition read_SDE_latest_info :: "upstream \<Rightarrow> error + json \<times> json \<times> json" where
  "read_SDE_latest_info up =
     (case latest up of
        None \<Rightarrow> Inl NetworkError
      | Some response \<Rightarrow>
          (case dict_item response (ascii ''_key'') of
             Inl err \<Rightarrow> Inl err
           | Inr k \<Rightarrow>
               (case dict_item response (ascii ''buildNumber'') of
                  Inl err \<Rightarrow> Inl err
                | Inr b \<Rightarrow>
                    (case dict_item response (ascii ''releaseDate'') of
                       Inl err \<Rightarrow> Inl err
                     | Inr d \<Rightarrow> Inr (k, b, d)))))"

text \<open>\<open>extractall\<close>: the files of the archive replace those of the same name.\<close>

definition extractall :: "directory \<Rightarrow> directory \<Rightarrow> directory" where
  "extractall files dir = files @ filter (\<lambda>nf. fst nf \<notin> fst ` set files) dir"

definition download_latest_eve_SDE_json :: "upstream \<Rightarrow> fs \<Rightarrow> error + fs" where
  "download_latest_eve_SDE_json up s =
     (case archive up of
        None \<Rightarrow> Inl NetworkError
      | Some files \<Rightarrow>
          Inr (s\<lparr>sde := Some (extractall files (case sde s of None \<Rightarrow> [] | Some dir \<Rightarrow> dir))\<rparr>))"

text \<open>\<open>f.readline()\<close> on a file just opened.\<close>

definition readline :: "pstr list \<Rightarrow> pstr" where
  "readline ls = (case ls of [] \<Rightarrow> [] | l # rest \<Rightarrow> l)"

definition update_SDE :: "builtins \<Rightarrow> upstream \<Rightarrow> fs \<Rightarrow> error + fs" where
  "update_SDE B up s =
     (case read_SDE_latest_info up of
        Inl err \<Rightarrow> Inl err
      | Inr (latest_key, latest_buildNumber, latest_releaseDate) \<Rightarrow>
          (case sde s of
             None \<Rightarrow> download_latest_eve_SDE_json up s
           | Some dir \<Rightarrow>
               (case map_of dir (ascii ''_sde.jsonl'') of
                  None \<Rightarrow> Inl FileNotFoundError
                | Some Unreadable \<Rightarrow> Inl OSError
                | Some (Readable ls) \<Rightarrow>
                    (case loads B (readline ls) of
                       None \<Rightarrow> Inl JSONDecodeError
                     | Some data \<Rightarrow>
                         (case dict_item data (ascii ''buildNumber'') of
                            Inl err \<Rightarrow> Inl err
                          | Inr current_buildNumber \<Rightarrow>
                              if \<not> py_eq current_buildNumber latest_buildNumber
                              then download_latest_eve_SDE_json up s
                              else Inr s)))))"

text \<open>The placeholder written for a removed id.\<close>

definition removed_record :: "json \<Rightarrow> json \<Rightarrow> json" where
  "removed_record key rid =
     JObj [(ascii ''_key'', rid), (ascii ''_source_table'', key),
       (ascii ''_status'', JStr (ascii ''removed'')),
       (ascii ''name'', JObj [(ascii ''en'', JStr (ascii ''(Item Removed)'')),
          (ascii ''zh'', JStr [40, 26465, 30446, 24050, 21024, 38500, 41])])]"

text \<open>A record of the table with \<open>_source_table\<close> and \<open>_status\<close> set.\<close>

definition tagged_record :: "(pstr \<times> json) list \<Rightarrow> json \<Rightarrow> string \<Rightarrow> json" where
  "tagged_record kvs key status =
     JObj (assoc_set (assoc_set kvs (ascii ''_source_table'') key) (ascii ''_status'') (JStr (ascii status)))"

text \<open>
  The body of the inner \<open>try\<close>: the line written for one line of the table, if any.
  The first is that of src/core/eve_SDE.py, the second that of src/gui/main_window.py,
  which also looks at \<open>fileAdded\<close>.
\<close>

definition changed_line :: "builtins \<Rightarrow> json \<Rightarrow> json list \<Rightarrow> json list \<Rightarrow> pstr \<Rightarrow> pstr option" where
  "changed_line B key added_ids changed_ids f_line =
     (case loads B f_line of
        Some (JObj kvs) \<Rightarrow>
          (let item_id = lookup_default kvs (ascii ''_key'') JNull in
           if \<not> hashable item_id then None
           else if py_member item_id added_ids
             then Some (dumps B (tagged_record kvs key ''added'') @ [10])
           else if py_member item_id changed_ids
             then Some (dumps B (tagged_record kvs key ''changed'') @ [10])
           else None)
      | _ \<Rightarrow> None)"

definition changed_line_gui :: "builtins \<Rightarrow> json \<Rightarrow> json list \<Rightarrow> json list \<Rightarrow> json \<Rightarrow> pstr \<Rightarrow> pstr option" where
  "changed_line_gui B key added_ids changed_ids is_file_added f_line =
     (case loads B f_line of
        Some (JObj kvs) \<Rightarrow>
          (let item_id = lookup_default kvs (ascii ''_key'') JNull in
           if \<not> hashable item_id then None
           else if py_member item_id added_ids
             then Some (dumps B (tagged_record kvs key ''added'') @ [10])
           else if py_member item_id changed_ids
             then Some (dumps B (tagged_record kvs key ''changed'') @ [10])
           else if truthy is_file_added
             then Some (dumps B (tagged_record kvs key ''added'') @ [10])
           else None)
      | _ \<Rightarrow> None)"

text \<open>The table file of a key, as \<open>os.path.exists\<close> and \<open>open\<close> find it.\<close>

definition source_file_of :: "builtins \<Rightarrow> directory option \<Rightarrow> json \<Rightarrow> content option" where
  "source_file_of B sde_dir key =
     (case sde_dir of
        None \<Rightarrow> None
      | Some dir \<Rightarrow> map_of dir (py_str B key @ ascii ''.jsonl''))"

text \<open>
  The body of the outer \<open>try\<close> for one line of the change manifest: the lines it
  appends to the change log. An exception ends the body and keeps what was written.
\<close>

definition manifest_lines :: "builtins \<Rightarrow> directory option \<Rightarrow> pstr \<Rightarrow> pstr list" where
  "manifest_lines B sde_dir line =
     (if line = [] then []
      else case loads B line of
        Some (JObj kvs) \<Rightarrow>
          (let key = lookup_default kvs (ascii ''_key'') JNull in
           if py_eq key (JStr (ascii ''_meta'')) then []
           else
             (case py_set (lookup_default kvs (ascii ''added'') (JArr [])) of
                None \<Rightarrow> []
              | Some added_ids \<Rightarrow>
                  (case py_set (lookup_default kvs (ascii ''changed'') (JArr [])) of
                     None \<Rightarrow> []
                   | Some changed_ids \<Rightarrow>
                       (case py_set (lookup_default kvs (ascii ''removed'') (JArr [])) of
                          None \<Rightarrow> []
                        | Some removed_ids \<Rightarrow>
                            if \<not> (added_ids \<noteq> [] \<or> changed_ids \<noteq> [] \<or> removed_ids \<noteq> []) then []
                            else
                              map (\<lambda>rid. dumps B (removed_record key rid) @ [10]) (set_order B removed_ids)
                              @ (if added_ids \<noteq> [] \<or> changed_ids \<noteq> []
                                 then (case source_file_of B sde_dir key of
                                         Some (Readable f_lines) \<Rightarrow>
                                           List.map_filter (changed_line B key added_ids changed_ids) f_lines
                                       | _ \<Rightarrow> [])
                                 else [])))))
      | _ \<Rightarrow> [])"

definition manifest_lines_gui :: "builtins \<Rightarrow> directory option \<Rightarrow> pstr \<Rightarrow> pstr list" where
  "manifest_lines_gui B sde_dir line =
     (if line = [] then []
      else case loads B line of
        Some (JObj kvs) \<Rightarrow>
          (let key = lookup_default kvs (ascii ''_key'') JNull in
           if py_eq key (JStr (ascii ''_meta'')) then []
           else
             (case py_set (lookup_default kvs (ascii ''added'') (JArr [])) of
                None \<Rightarrow> []
              | Some added_ids \<Rightarrow>
                  (case py_set (lookup_default kvs (ascii ''changed'') (JArr [])) of
                     None \<Rightarrow> []
                   | Some changed_ids \<Rightarrow>
                       (case py_set (lookup_default kvs (ascii ''removed'') (JArr [])) of
                          None \<Rightarrow> []
                        | Some removed_ids \<Rightarrow>
                            (let is_file_added = lookup_default kvs (ascii ''fileAdded'') (JBool False) in
                             if length added_ids + length changed_ids + length removed_ids = 0
                                \<and> \<not> truthy is_file_added then []
                             else
                               map (\<lambda>rid. dumps B (removed_record key rid) @ [10]) (set_order B removed_ids)
                               @ (if added_ids \<noteq> [] \<or> changed_ids \<noteq> [] \<or> truthy is_file_added
                                  then (case source_file_of B sde_dir key of
                                          Some (Readable f_lines) \<Rightarrow>
                                            List.map_filter
                                              (changed_line_gui B key added_ids changed_ids is_file_added) f_lines
                                        | _ \<Rightarrow> [])
                                  else []))))))
      | _ \<Rightarrow> [])"

text \<open>The name of the change log of a release date, \<open>:\<close> replaced by \<open>-\<close>.\<close>

definition changes_file_name :: "pstr \<Rightarrow> pstr" where
  "changes_file_name release_date =
     ascii ''eve_sde_changes_'' @ map (\<lambda>c. if c = 58 then 45 else c) release_date @ ascii ''.jsonl''"

text \<open>
  \<open>get_SDE_update\<close> of src/core/eve_SDE.py: the file system afterwards and the exception
  that ended the call, if any.
\<close>

definition get_SDE_update :: "builtins \<Rightarrow> upstream \<Rightarrow> fs \<Rightarrow> fs \<times> error option" where
  "get_SDE_update B up s =
     (case read_SDE_latest_info up of
        Inl err \<Rightarrow> (s, Some err)
      | Inr (latest_key, latest_buildNumber, latest_releaseDate) \<Rightarrow>
          (case update_SDE B up s of
             Inl err \<Rightarrow> (s, Some err)
           | Inr s1 \<Rightarrow>
               (case changes up (py_str B latest_buildNumber) of
                  None \<Rightarrow> (s1, Some NetworkError)
                | Some response \<Rightarrow>
                    (case latest_releaseDate of
                       JStr release_date \<Rightarrow>
                         (let changes_file = changes_file_name release_date in
                          (foldl (\<lambda>s' line. append_lines changes_file (manifest_lines B (sde s') line) s')
                             (truncate_file changes_file s1) response, None))
                     | _ \<Rightarrow> (s1, Some AttributeError)))))"

text \<open>\<open>UpdateWorker.get_SDE_update\<close> of src/gui/main_window.py.\<close>

definition UpdateWorker_get_SDE_update :: "builtins \<Rightarrow> upstream \<Rightarrow> json \<Rightarrow> json \<Rightarrow> fs \<Rightarrow> fs \<times> error option" where
  "UpdateWorker_get_SDE_update B up latest_buildNumber latest_releaseDate s =
     (case changes up (py_str B latest_buildNumber) of
        None \<Rightarrow> (s, Some NetworkError)
      | Some response \<Rightarrow>
          (case latest_releaseDate of
             JStr release_date \<Rightarrow>
               (let changes_file = changes_file_name release_date in
                (foldl (\<lambda>s' line. append_lines changes_file (manifest_lines_gui B (sde s') line) s')
                   (truncate_file changes_file s) response, None))
           | _ \<Rightarrow> (s, Some AttributeError)))"

section \<open>A concrete environment for the examples\<close>

text \<open>
  \<open>json.dumps(_, ensure_ascii=False)\<close> on the values of the embedding: the separators
  \<open>", "\<close> and \<open>": "\<close>, and the escapes of the quote, the backslash and the control
  characters.
\<close>

fun hex_digit :: "nat \<Rightarrow> nat" where
  "hex_digit d = (if d < 10 then 48 + d else 87 + d)"

definition escape_char :: "nat \<Rightarrow> pstr" where
  "escape_char c =
     (if c = 34 then [92, 34] else if c = 92 then [92, 92]
      else if c = 10 then [92, 110] else if c = 13 then [92, 114]
      else if c = 9 then [92, 116] else if c = 8 then [92, 98]
      else if c = 12 then [92, 102]
      else if c < 32 then [92, 117, 48, 48, hex_digit (c div 16), hex_digit (c mod 16)]
      else [c])"

definition quote :: "pstr \<Rightarrow> pstr" where
  "quote s = [34] @ concat (map escape_char s) @ [34]"

fun join :: "pstr \<Rightarrow> pstr list \<Rightarrow> pstr" where
  "join sep [] = []"
| "join sep [x] = x"
| "join sep (x # y # ys) = x @ sep @ join sep (y # ys)"

fun json_dumps :: "json \<Rightarrow> pstr" where
  "json_dumps JNull = ascii ''null''"
| "json_dumps (JBool b) = (if b then ascii ''true'' else ascii ''false'')"
| "json_dumps (JInt i) = str_int i"
| "json_dumps (JStr s) = quote s"
| "json_dumps (JArr xs) = [91] @ join (ascii '', '') (map json_dumps xs) @ [93]"
| "json_dumps (JObj kvs) =
     [123] @ join (ascii '', '') (map (\<lambda>kv. quote (fst kv) @ ascii '': '' @ json_dumps (snd kv)) kvs) @ [125]"

text \<open>
  \<open>repr\<close> on values whose strings are made of printable characters other than the
  quote and the backslash.
\<close>

fun example_repr :: "json \<Rightarrow> pstr" where
  "example_repr JNull = ascii ''None''"
| "example_repr (JBool b) = (if b then ascii ''True'' else ascii ''False'')"
| "example_repr (JInt i) = str_int i"
| "example_repr (JStr s) = [39] @ s @ [39]"
| "example_repr (JArr xs) = [91] @ join (ascii '', '') (map example_repr xs) @ [93]"
| "example_repr (JObj kvs) =
     [123] @ join (ascii '', '')
       (map (\<lambda>kv. [39] @ fst kv @ [39] @ ascii '': '' @ example_repr (snd kv)) kvs) @ [125]"

text \<open>
  The lines of the examples, each with the value \<open>json.loads\<close> returns for it. The
  name of \<open>line_subseq\<close> is the four characters U+9AD8 U+7EA7 U+8F9F U+90AA.
\<close>

definition line_34 :: pstr where
  \<open>line_34 = ascii ''{"_key": 34, "name": {"en": "Tritanium"}}''\<close>

definition fields_34 :: "(pstr \<times> json) list" where
  \<open>fields_34 = [(ascii ''_key'', JInt 34),
     (ascii ''name'', JObj [(ascii ''en'', JStr (ascii ''Tritanium''))])]\<close>

definition record_34 :: json where
  "record_34 = JObj fields_34"

definition line_35 :: pstr where
  \<open>line_35 = ascii ''{"_key": 35, "name": {"en": "Tritanium"}}''\<close>

definition fields_35 :: "(pstr \<times> json) list" where
  \<open>fields_35 = [(ascii ''_key'', JInt 35),
     (ascii ''name'', JObj [(ascii ''en'', JStr (ascii ''Tritanium''))])]\<close>

definition record_35 :: json where
  "record_35 = JObj fields_35"

definition line_36 :: pstr where
  \<open>line_36 = ascii ''{"_key": 36, "name": {"en": "Mexallon"}}''\<close>

definition fields_36 :: "(pstr \<times> json) list" where
  \<open>fields_36 = [(ascii ''_key'', JInt 36),
     (ascii ''name'', JObj [(ascii ''en'', JStr (ascii ''Mexallon''))])]\<close>

definition record_36 :: json where
  "record_36 = JObj fields_36"

definition line_38 :: pstr where
  \<open>line_38 = ascii ''{"_key": 38, "name": {"en": "Nocxium"}}''\<close>

definition fields_38 :: "(pstr \<times> json) list" where
  \<open>fields_38 = [(ascii ''_key'', JInt 38),
     (ascii ''name'', JObj [(ascii ''en'', JStr (ascii ''Nocxium''))])]\<close>

definition record_38 :: json where
  "record_38 = JObj fields_38"

definition line_noid :: pstr where
  \<open>line_noid = ascii ''{"name": "Veldspar"}''\<close>

definition fields_noid :: "(pstr \<times> json) list" where
  \<open>fields_noid = [(ascii ''name'', JStr (ascii ''Veldspar''))]\<close>

definition record_noid :: json where
  "record_noid = JObj fields_noid"

definition line_bad :: pstr where
  \<open>line_bad = ascii ''{"_key": 36, "name": {"en": ["Pyerite"]}}''\<close>

definition fields_bad :: "(pstr \<times> json) list" where
  \<open>fields_bad = [(ascii ''_key'', JInt 36),
     (ascii ''name'', JObj [(ascii ''en'', JArr [JStr (ascii ''Pyerite'')])])]\<close>

definition record_bad :: json where
  "record_bad = JObj fields_bad"

definition line_subseq :: pstr where
  \<open>line_subseq = ascii ''{"_key": 1, "name": {"zh": "'' @ [39640, 32423, 36767, 37034] @ ascii ''"}}''\<close>

definition fields_subseq :: "(pstr \<times> json) list" where
  \<open>fields_subseq = [(ascii ''_key'', JInt 1),
     (ascii ''name'', JObj [(ascii ''zh'', JStr ([39640, 32423, 36767, 37034]))])]\<close>

definition record_subseq :: json where
  "record_subseq = JObj fields_subseq"

definition line_sde_100 :: pstr where
  \<open>line_sde_100 = ascii ''{"_key": "sde", "buildNumber": 100, "releaseDate": "2026-01-01T11:00:00Z"}''\<close>

definition fields_sde_100 :: "(pstr \<times> json) list" where
  \<open>fields_sde_100 = [(ascii ''_key'', JStr (ascii ''sde'')),
     (ascii ''buildNumber'', JInt 100),
     (ascii ''releaseDate'', JStr (ascii ''2026-01-01T11:00:00Z''))]\<close>

definition record_sde_100 :: json where
  "record_sde_100 = JObj fields_sde_100"

definition line_sde_99 :: pstr where
  \<open>line_sde_99 = ascii ''{"_key": "sde", "buildNumber": 99, "releaseDate": "2025-12-01T11:00:00Z"}''\<close>

definition fields_sde_99 :: "(pstr \<times> json) list" where
  \<open>fields_sde_99 = [(ascii ''_key'', JStr (ascii ''sde'')),
     (ascii ''buildNumber'', JInt 99),
     (ascii ''releaseDate'', JStr (ascii ''2025-12-01T11:00:00Z''))]\<close>

definition record_sde_99 :: json where
  "record_sde_99 = JObj fields_sde_99"

definition line_meta :: pstr where
  \<open>line_meta = ascii ''{"_key": "_meta", "buildNumber": 100, "releaseDate": "2026-01-01T11:00:00Z"}''\<close>

definition fields_meta :: "(pstr \<times> json) list" where
  \<open>fields_meta = [(ascii ''_key'', JStr (ascii ''_meta'')),
     (ascii ''buildNumber'', JInt 100),
     (ascii ''releaseDate'', JStr (ascii ''2026-01-01T11:00:00Z''))]\<close>

definition record_meta :: json where
  "record_meta = JObj fields_meta"

definition line_types :: pstr where
  \<open>line_types = ascii ''{"_key": "types", "added": [34, 35], "changed": [36], "removed": [37]}''\<close>

definition fields_types :: "(pstr \<times> json) list" where
  \<open>fields_types = [(ascii ''_key'', JStr (ascii ''types'')),
     (ascii ''added'', JArr [JInt 34, JInt 35]), (ascii ''changed'', JArr [JInt 36]),
     (ascii ''removed'', JArr [JInt 37])]\<close>

definition record_types :: json where
  "record_types = JObj fields_types"

definition line_new :: pstr where
  \<open>line_new = ascii ''{"_key": "newTable", "fileAdded": true}''\<close>

definition fields_new :: "(pstr \<times> json) list" where
  \<open>fields_new = [(ascii ''_key'', JStr (ascii ''newTable'')),
     (ascii ''fileAdded'', JBool True)]\<close>

definition record_new :: json where
  "record_new = JObj fields_new"

definition line_rm :: pstr where
  \<open>line_rm = ascii ''{"_key": "types", "removed": ["a", "b"]}''\<close>

definition fields_rm :: "(pstr \<times> json) list" where
  \<open>fields_rm = [(ascii ''_key'', JStr (ascii ''types'')),
     (ascii ''removed'', JArr [JStr (ascii ''a''), JStr (ascii ''b'')])]\<close>

definition record_rm :: json where
  "record_rm = JObj fields_rm"

definition example_lines :: "(pstr \<times> json) list" where
  "example_lines = [(line_34, record_34), (line_35, record_35), (line_36, record_36),
     (line_38, record_38), (line_noid, record_noid), (line_bad, record_bad),
     (line_subseq, record_subseq), (line_sde_100, record_sde_100),
     (line_sde_99, record_sde_99), (line_meta, record_meta), (line_types, record_types),
     (line_new, record_new), (line_rm, record_rm)]"

text \<open>
  The environment of the examples: \<open>json.loads\<close> on the lines above, \<open>str.lower\<close> on
  strings whose only cased characters are ASCII letters, and a process that iterates
  a set in the order in which its elements were inserted.
\<close>

definition py0 :: builtins where
  "py0 = \<lparr>loads = map_of example_lines, dumps = json_dumps, lower = map ascii_fold,
     repr = example_repr, set_order = (\<lambda>xs. xs)\<rparr>"

definition types_jsonl :: pstr where
  "types_jsonl = ascii ''types.jsonl''"

definition newTable_jsonl :: pstr where
  "newTable_jsonl = ascii ''newTable.jsonl''"

definition sde_jsonl :: pstr where
  "sde_jsonl = ascii ''_sde.jsonl''"

text \<open>The rows \<open>build_index\<close> writes for \<open>line_34\<close>, \<open>line_35\<close> and \<open>line_noid\<close>.\<close>

definition row_34 :: row where
  "row_34 = \<lparr>row_id = ascii ''34'', source_file = types_jsonl, name_zh = Some [],
     name_en = Some (ascii ''Tritanium''), search_text = ascii ''34  tritanium'',
     json_data = line_34\<rparr>"

definition row_35 :: row where
  "row_35 = \<lparr>row_id = ascii ''35'', source_file = types_jsonl, name_zh = Some [],
     name_en = Some (ascii ''Tritanium''), search_text = ascii ''35  tritanium'',
     json_data = line_35\<rparr>"

definition row_noid :: row where
  "row_noid = \<lparr>row_id = [], source_file = types_jsonl, name_zh = Some (ascii ''Veldspar''),
     name_en = Some (ascii ''Veldspar''), search_text = ascii '' veldspar veldspar'',
     json_data = line_noid\<rparr>"

text \<open>The keyword U+9AD8 U+8F9F U+90AA, the name of \<open>line_subseq\<close> without its second character.\<close>

definition kw_subseq :: pstr where
  "kw_subseq = [39640, 36767, 37034]"

text \<open>A keyword of 1000 tokens, and a row whose search text holds a NUL character.\<close>

definition kw_1000 :: pstr where
  "kw_1000 = concat (replicate 1000 (ascii ''a ''))"

definition line_nul :: pstr where
  \<open>line_nul = ascii ''{"_key": 2, "name": {"en": "a'' @ [92] @ ascii ''u0000b"}}''\<close>

definition row_nul :: row where
  "row_nul = \<lparr>row_id = ascii ''2'', source_file = types_jsonl, name_zh = Some [],
     name_en = Some (ascii ''a'' @ [0] @ ascii ''b''), search_text = ascii ''2  a'' @ [0] @ ascii ''b'',
     json_data = line_nul\<rparr>"





definition out_new_34 :: pstr where
  \<open>out_new_34 = ascii ''{"_key": 34, "name": {"en": "Tritanium"}, "_source_table": "newTable", "_status": "added"}'' @ [10]\<close>

definition out_new_35 :: pstr where
  \<open>out_new_35 = ascii ''{"_key": 35, "name": {"en": "Tritanium"}, "_source_table": "newTable", "_status": "added"}'' @ [10]\<close>



text \<open>
  The publisher at build 100, whose change manifest names the table \<open>types\<close>, and a
  machine whose snapshot is of build 99 and which holds an older change log under the
  name of the new one.
\<close>

definition log_100 :: pstr where
  "log_100 = ascii ''eve_sde_changes_2026-01-01T11-00-00Z.jsonl''"

definition archive_100 :: directory where
  "archive_100 = [(sde_jsonl, Readable [line_sde_100]),
     (types_jsonl, Readable [line_34, line_35, line_36, line_38])]"



text \<open>
  The publisher at build 100 with a change manifest that only announces the new table
  \<open>newTable\<close>, and a machine whose snapshot is of that build.
\<close>

definition up_new :: upstream where
  "up_new = \<lparr>latest = Some record_sde_100, archive = Some archive_100,
     changes = (\<lambda>b. if b = ascii ''100'' then Some [line_meta, line_new] else None)\<rparr>"

definition fs_new :: fs where
  "fs_new = \<lparr>sde = Some [(sde_jsonl, Readable [line_sde_100]),
       (newTable_jsonl, Readable [line_34, line_35])],
     updates = Map.empty\<rparr>"



section \<open>Strings and patterns\<close>

lemma split_aux_Nil_iff: "split_aux w s = [] \<longleftrightarrow> w = [] \<and> (\<forall>c\<in>set s. is_space c)"
  by (induction s arbitrary: w) auto

lemma split_Nil_iff: "split s = [] \<longleftrightarrow> (\<forall>c\<in>set s. is_space c)"
  by (simp add: split_def split_aux_Nil_iff)

lemma strip_all_space_iff: "(\<forall>c\<in>set (strip s). is_space c) \<longleftrightarrow> (\<forall>c\<in>set s. is_space c)"
proof
  assume a: "\<forall>c\<in>set s. is_space c"
  then have d: "dropWhile is_space s = []" by simp
  show "\<forall>c\<in>set (strip s). is_space c" unfolding strip_def d by simp
next
  assume a: "\<forall>c\<in>set (strip s). is_space c"
  show "\<forall>c\<in>set s. is_space c"
  proof (rule ccontr)
    assume "\<not> (\<forall>c\<in>set s. is_space c)"
    then have n1: "dropWhile is_space s \<noteq> []" by simp
    then have "\<not> is_space (hd (dropWhile is_space s))" by (rule hd_dropWhile)
    with n1 have "\<exists>c\<in>set (rev (dropWhile is_space s)). \<not> is_space c"
      by (metis hd_in_set set_rev)
    then have n2: "dropWhile is_space (rev (dropWhile is_space s)) \<noteq> []"
      by simp
    then have "\<not> is_space (hd (dropWhile is_space (rev (dropWhile is_space s))))"
      by (rule hd_dropWhile)
    with n2 have "\<exists>c\<in>set (strip s). \<not> is_space c"
      unfolding strip_def by (metis hd_in_set set_rev)
    with a show False by blast
  qed
qed

lemma set_split_aux: "t \<in> set (split_aux w s) \<Longrightarrow> set t \<subseteq> set w \<union> set s"
proof (induction s arbitrary: w)
  case Nil
  then show ?case by (simp split: if_splits)
next
  case (Cons c cs)
  show ?case
  proof (cases "is_space c")
    case True
    with Cons.prems have "t = w \<or> t \<in> set (split_aux [] cs)" by (simp split: if_splits)
    then show ?thesis using Cons.IH [of "[]"] by auto
  next
    case False
    with Cons.prems have "t \<in> set (split_aux (w @ [c]) cs)" by simp
    from Cons.IH [OF this] show ?thesis by auto
  qed
qed

lemma set_split: "t \<in> set (split s) \<Longrightarrow> set t \<subseteq> set s"
  using set_split_aux [of t "[]" s] by (simp add: split_def)

lemma set_strip: "set (strip s) \<subseteq> set s"
  by (auto simp: strip_def dest!: set_dropWhileD)

lemma split_aux_spaces: "\<forall>c\<in>set ws. is_space c \<Longrightarrow> split_aux w ws = (if w = [] then [] else [w])"
  by (induction ws arbitrary: w) (auto simp: split_aux_Nil_iff)

lemma split_aux_trailing:
  "\<forall>c\<in>set ws. is_space c \<Longrightarrow> split_aux w (xs @ ws) = split_aux w xs"
  by (induction xs arbitrary: w) (auto simp: split_aux_spaces)

lemma split_aux_leading: "split_aux [] (dropWhile is_space s) = split_aux [] s"
  by (induction s) auto

lemma split_strip: "split (strip s) = split s"
proof -
  define d where "d = dropWhile is_space s"
  have "rev d = takeWhile is_space (rev d) @ dropWhile is_space (rev d)" by simp
  then have "d = rev (dropWhile is_space (rev d)) @ rev (takeWhile is_space (rev d))"
    by (metis rev_append rev_rev_ident)
  moreover have "\<forall>c\<in>set (rev (takeWhile is_space (rev d))). is_space c"
    by (auto dest: set_takeWhileD)
  ultimately have "split_aux [] d = split_aux [] (rev (dropWhile is_space (rev d)))"
    using split_aux_trailing by metis
  then show ?thesis
    by (simp add: split_def strip_def d_def split_aux_leading)
qed

lemma split_aux_no_space:
  "t \<in> set (split_aux w s) \<Longrightarrow> \<forall>c\<in>set w. \<not> is_space c \<Longrightarrow> \<forall>c\<in>set t. \<not> is_space c"
proof (induction s arbitrary: w)
  case Nil
  then show ?case by (simp split: if_splits)
next
  case (Cons c cs)
  show ?case
  proof (cases "is_space c")
    case True
    with Cons.prems(1) have "t = w \<or> t \<in> set (split_aux [] cs)" by (simp split: if_splits)
    then show ?thesis using Cons.IH [of "[]"] Cons.prems(2) by auto
  next
    case False
    with Cons.prems(1) have "t \<in> set (split_aux (w @ [c]) cs)" by simp
    moreover from False Cons.prems(2) have "\<forall>x\<in>set (w @ [c]). \<not> is_space x" by simp
    ultimately show ?thesis by (rule Cons.IH)
  qed
qed

lemma split_no_space: "t \<in> set (split s) \<Longrightarrow> \<forall>c\<in>set t. \<not> is_space c"
  using split_aux_no_space [of t "[]" s] by (simp add: split_def)

lemma space_32: "is_space 32"
  by (simp add: is_space_def)

lemma sublist_separator:
  assumes "c \<notin> set kw" and "sublist kw (a @ [c] @ b)"
  shows "sublist kw a \<or> sublist kw b"
proof -
  from assms(2) consider "sublist kw a" | "sublist kw ([c] @ b)"
    | xs1 xs2 where "kw = xs1 @ xs2" "suffix xs1 a" "prefix xs2 ([c] @ b)"
    by (auto simp: sublist_append)
  then show ?thesis
  proof cases
    case 1
    then show ?thesis by simp
  next
    case 2
    then have "prefix kw (c # b) \<or> sublist kw b" by (simp add: sublist_Cons_right)
    moreover have "kw = []" if "prefix kw (c # b)"
      using that assms(1) by (cases kw) auto
    ultimately show ?thesis by auto
  next
    case 3
    have "xs2 = []" using 3(1,3) assms(1) by (cases xs2) auto
    with 3 have "suffix kw a" by simp
    then show ?thesis by (metis suffix_def sublist_append_leftI)
  qed
qed

lemma like_percent_all: "pattern_compare [37] s"
  by (induction s) auto

lemma like_percent_skip: "pattern_compare ps s \<Longrightarrow> pattern_compare (37 # ps) s"
  by (cases s) auto

lemma like_literal_prefix: "pattern_compare (t @ [37]) (t @ rest)"
proof (induction t)
  case Nil
  show ?case by (simp add: like_percent_all)
next
  case (Cons x t)
  show ?case
  proof (cases "x = 37")
    case True
    from like_percent_skip [OF Cons.IH] show ?thesis using True by simp
  next
    case False
    with Cons.IH show ?thesis by simp
  qed
qed

lemma like_infix: "pattern_compare (37 # t @ [37]) (pre @ t @ rest)"
proof (induction pre)
  case Nil
  show ?case using like_percent_skip [OF like_literal_prefix] by simp
next
  case (Cons c pre)
  then show ?case by simp
qed

lemma sublist_imp_like: "sublist t s \<Longrightarrow> pattern_compare ([37] @ t @ [37]) s"
  using like_infix by (auto simp: sublist_def)

lemma ascii_fold_eq_iff:
  "\<not> (65 \<le> p \<and> p \<le> 90) \<Longrightarrow> \<not> (65 \<le> c \<and> c \<le> 90) \<Longrightarrow> ascii_fold p = ascii_fold c \<longleftrightarrow> p = c"
  by (auto simp: ascii_fold_def)

lemma like_plain_prefix:
  "no_wildcard t \<Longrightarrow> no_upper t \<Longrightarrow> no_upper s \<Longrightarrow> pattern_compare (t @ [37]) s \<Longrightarrow> prefix t s"
proof (induction t arbitrary: s)
  case Nil
  show ?case by simp
next
  case (Cons x t)
  from Cons.prems(1) have x: "x \<noteq> 37" "x \<noteq> 95" and t: "no_wildcard t"
    by (auto simp: no_wildcard_def)
  from Cons.prems(2) have ux: "\<not> (65 \<le> x \<and> x \<le> 90)" and ut: "no_upper t"
    by (auto simp: no_upper_def)
  show ?case
  proof (cases s)
    case Nil
    with Cons.prems(4) x show ?thesis by simp
  next
    case (Cons c cs)
    from Cons.prems(3) Cons have uc: "\<not> (65 \<le> c \<and> c \<le> 90)" and ucs: "no_upper cs"
      by (auto simp: no_upper_def)
    from Cons.prems(4) Cons x have "ascii_fold x = ascii_fold c" and l: "pattern_compare (t @ [37]) cs"
      by auto
    with ux uc have "x = c" by (simp add: ascii_fold_eq_iff)
    moreover from Cons.IH [OF t ut ucs l] have "prefix t cs" .
    ultimately show ?thesis using Cons by simp
  qed
qed

lemma like_percent_suffix: "pattern_compare (37 # ps) s \<Longrightarrow> \<exists>pre s'. s = pre @ s' \<and> pattern_compare ps s'"
proof (induction s)
  case Nil
  then show ?case by simp
next
  case (Cons c cs)
  from Cons.prems consider (here) "pattern_compare ps (c # cs)" | (later) "pattern_compare (37 # ps) cs"
    by auto
  then show ?case
  proof cases
    case here
    then have "c # cs = [] @ (c # cs) \<and> pattern_compare ps (c # cs)" by simp
    then show ?thesis by blast
  next
    case later
    from Cons.IH [OF this] obtain pre s' where "cs = pre @ s'" "pattern_compare ps s'" by blast
    then have "c # cs = (c # pre) @ s' \<and> pattern_compare ps s'" by simp
    then show ?thesis by blast
  qed
qed

lemma like_imp_sublist:
  assumes "no_wildcard t" "no_upper t" "no_upper s" "pattern_compare ([37] @ t @ [37]) s"
  shows "sublist t s"
proof -
  from assms(4) have "pattern_compare (37 # (t @ [37])) s" by simp
  from like_percent_suffix [OF this] obtain pre s' where s: "s = pre @ s'" and l: "pattern_compare (t @ [37]) s'"
    by blast
  from assms(3) s have "no_upper s'" by (simp add: no_upper_def)
  from like_plain_prefix [OF assms(1,2) this l] obtain rest where "s' = t @ rest"
    by (auto simp: prefix_def)
  with s show ?thesis by (auto simp: sublist_def)
qed

lemma c_str_no_nul: "no_nul s \<Longrightarrow> c_str s = s"
  by (induction s) (auto simp: c_str_def no_nul_def)

lemma like_no_nul: "no_nul p \<Longrightarrow> no_nul s \<Longrightarrow> like p s = pattern_compare p s"
  by (simp add: like_def c_str_no_nul)

lemma utf8_len_append: "utf8_len (a @ b) = utf8_len a + utf8_len b"
  by (simp add: utf8_len_def)

lemma utf8_len_pattern: "utf8_len ([37] @ kw @ [37]) = utf8_len kw + 2"
  by (simp add: utf8_len_def)

lemma bind_all_ok:
  "\<forall>p\<in>set ps. \<not> list_ex surrogate p \<and> utf8_len p \<le> 1000000000 \<Longrightarrow> bind_all ps = Inr ps"
  by (induction ps) (simp_all add: bind_str_def)

lemma where_clause_ok:
  "\<forall>p\<in>set ps. utf8_len p \<le> 50000 \<Longrightarrow> where_clause ps s = Inr (\<forall>p\<in>set ps. like p s)"
  by (induction ps) simp_all

lemma sql_limit_Cons: "n \<noteq> 0 \<Longrightarrow> sql_limit n (x # xs) = x # sql_limit (n - 1) xs"
  by (auto simp: sql_limit_def take_Cons' nat_diff_distrib)

lemma sql_limit_simps [simp]: "sql_limit n [] = []" "sql_limit 0 xs = []"
  by (simp_all add: sql_limit_def)

lemma fetch_ok:
  assumes "\<forall>p\<in>set ps. utf8_len p \<le> 50000"
  shows "fetch ps n rows = Inr (sql_limit n (filter (\<lambda>r. \<forall>p\<in>set ps. like p (search_text r)) rows))"
proof (induction rows arbitrary: n)
  case Nil
  show ?case by simp
next
  case (Cons r rows)
  show ?case
  proof (cases "n = 0")
    case True
    then show ?thesis by simp
  next
    case False
    then show ?thesis
      by (simp add: where_clause_ok [OF assms] Cons.IH sql_limit_Cons)
  qed
qed

lemma all_in_iterator_Cons:
  "all_in_iterator (ch # kw) (x # xs) =
     (if x = ch then all_in_iterator kw xs else all_in_iterator (ch # kw) xs)"
  by simp

lemma all_in_iterator_subseq: "all_in_iterator kw s = subseq kw s"
proof (induction s arbitrary: kw)
  case Nil
  show ?case by (cases kw) simp_all
next
  case (Cons x xs)
  show ?case
  proof (cases kw)
    case Nil
    then show ?thesis by simp
  next
    case (Cons ch kw')
    with Cons.IH show ?thesis by (auto simp del: all_in_iterator.simps simp add: all_in_iterator_Cons)
  qed
qed

lemma kw_matches_iff: "kw_matches text kw \<longleftrightarrow> sublist kw text \<or> subseq kw text"
  by (simp add: kw_matches_def all_in_iterator_subseq)

section \<open>The examples, evaluated\<close>

lemmas line_defs = line_34_def line_35_def line_36_def line_38_def line_noid_def line_bad_def
  line_subseq_def line_sde_100_def line_sde_99_def line_meta_def line_types_def line_new_def
  line_rm_def

lemma loads_34: "loads py0 line_34 = Some record_34"
  by (simp add: py0_def example_lines_def)

lemma loads_35: "loads py0 line_35 = Some record_35"
  by (simp add: py0_def example_lines_def line_defs ascii_def)



lemma loads_noid: "loads py0 line_noid = Some record_noid"
  by (simp add: py0_def example_lines_def line_defs ascii_def)

lemma loads_bad: "loads py0 line_bad = Some record_bad"
  by (simp add: py0_def example_lines_def line_defs ascii_def)

lemma loads_subseq: "loads py0 line_subseq = Some record_subseq"
  by (simp add: py0_def example_lines_def line_defs ascii_def)

lemma loads_sde_100: "loads py0 line_sde_100 = Some record_sde_100"
  by (simp add: py0_def example_lines_def line_defs ascii_def)


lemma loads_meta: "loads py0 line_meta = Some record_meta"
  by (simp add: py0_def example_lines_def line_defs ascii_def)


lemma loads_new: "loads py0 line_new = Some record_new"
  by (simp add: py0_def example_lines_def line_defs ascii_def)


lemma strip_34: "strip line_34 = line_34"
  by (simp add: strip_def line_34_def is_space_def ascii_def)

lemma strip_noid: "strip line_noid = line_noid"
  by (simp add: strip_def line_noid_def is_space_def ascii_def)

lemma strip_bad: "strip line_bad = line_bad"
  by (simp add: strip_def line_bad_def is_space_def ascii_def)

lemma strip_subseq: "strip line_subseq = line_subseq"
  by (simp add: strip_def line_subseq_def is_space_def ascii_def)

lemma lower_py0: "lower py0 = map ascii_fold"
  by (simp add: py0_def)

lemma repr_py0: "repr py0 = example_repr"
  by (simp add: py0_def)

lemma dumps_py0: "dumps py0 = json_dumps"
  by (simp add: py0_def)

lemma set_order_py0: "set_order py0 xs = xs"
  by (simp add: py0_def)

lemma jsonl_types: "suffix (ascii ''.jsonl'') types_jsonl"
  by (simp add: suffix_def types_jsonl_def ascii_def)

lemma jsonl_newTable: "suffix (ascii ''.jsonl'') newTable_jsonl"
  by (simp add: suffix_def newTable_jsonl_def ascii_def)

lemma keywords_empty: "search_keywords py0 [] = []"
  by (simp add: search_keywords_def py0_def strip_def split_def)

lemma keywords_blank: "search_keywords py0 (ascii ''  '') = []"
  by (simp add: search_keywords_def py0_def strip_def split_def is_space_def ascii_fold_def ascii_def)

lemma keywords_34: "search_keywords py0 (ascii ''34'') = [ascii ''34'']"
  by (simp add: search_keywords_def py0_def strip_def split_def is_space_def ascii_fold_def ascii_def)

lemma keywords_34_tritanium:
  "search_keywords py0 (ascii ''34 tritanium'') = [ascii ''34'', ascii ''tritanium'']"
  by (simp add: search_keywords_def py0_def strip_def split_def is_space_def ascii_fold_def ascii_def)

lemma keywords_wild:
  "search_keywords py0 (ascii ''3_ tritanium'') = [ascii ''3_'', ascii ''tritanium'']"
  by (simp add: search_keywords_def py0_def strip_def split_def is_space_def ascii_fold_def ascii_def)

lemma keywords_tritanium: "search_keywords py0 (ascii ''tritanium'') = [ascii ''tritanium'']"
  by (simp add: search_keywords_def py0_def strip_def split_def is_space_def ascii_fold_def ascii_def)

lemma scan_keywords_subseq: "scan_keywords py0 kw_subseq = [kw_subseq]"
  by (simp add: scan_keywords_def lower_py0 split_def kw_subseq_def ascii_fold_def is_space_def)

lemma scan_keywords_tritanium: "scan_keywords py0 (ascii ''tritanium'') = [ascii ''tritanium'']"
  by (simp add: scan_keywords_def lower_py0 split_def ascii_fold_def is_space_def ascii_def)

lemma scan_keywords_34: "scan_keywords py0 (ascii ''34'') = [ascii ''34'']"
  by (simp add: scan_keywords_def lower_py0 split_def ascii_fold_def is_space_def ascii_def)

lemma scan_keywords_empty: "scan_keywords py0 [] = []"
  by (simp add: scan_keywords_def lower_py0 split_def)

lemma keywords_b: "search_keywords py0 (ascii ''b'') = [ascii ''b'']"
  by (simp add: search_keywords_def py0_def strip_def split_def is_space_def ascii_fold_def ascii_def)

lemma keywords_surrogate: "search_keywords py0 [55296] = [[55296]]"
  by (simp add: search_keywords_def py0_def strip_def split_def is_space_def ascii_fold_def)

lemma split_aux_tokens:
  "split_aux [] (concat (replicate n [97, 32])) = replicate n [97]"
  by (induction n) (simp_all add: is_space_def)

lemma keywords_1000: "search_keywords py0 kw_1000 = replicate 1000 (ascii ''a'')"
proof -
  have "lower py0 kw_1000 = concat (replicate 1000 [97, 32])"
    by (simp add: py0_def kw_1000_def map_concat ascii_fold_def ascii_def)
  moreover have "search_keywords py0 kw_1000 = split (lower py0 kw_1000)"
    by (simp add: search_keywords_def split_strip)
  ultimately show ?thesis
    by (simp add: split_def split_aux_tokens ascii_def)
qed

lemma searchable_34: "searchable py0 (ascii ''34'')"
  by (simp only: searchable_def keywords_34) (simp add: surrogate_def utf8_len_def ascii_def)

lemma searchable_b: "searchable py0 (ascii ''b'')"
  by (simp only: searchable_def keywords_b) (simp add: surrogate_def utf8_len_def ascii_def)

lemma searchable_tritanium: "searchable py0 (ascii ''tritanium'')"
  by (simp only: searchable_def keywords_tritanium) (simp add: surrogate_def utf8_len_def ascii_def)

lemma searchable_34_tritanium: "searchable py0 (ascii ''34 tritanium'')"
  by (simp only: searchable_def keywords_34_tritanium) (simp add: surrogate_def utf8_len_def ascii_def)

lemma searchable_wild: "searchable py0 (ascii ''3_ tritanium'')"
  by (simp only: searchable_def keywords_wild) (simp add: surrogate_def utf8_len_def ascii_def)

lemma row_34_matches_34: "like ([37] @ ascii ''34'' @ [37]) (search_text row_34)"
  by (simp add: like_def c_str_def row_34_def ascii_def ascii_fold_def)

lemma row_34_matches_tritanium: "like ([37] @ ascii ''tritanium'' @ [37]) (search_text row_34)"
  by (simp add: like_def c_str_def row_34_def ascii_def ascii_fold_def)

lemma names_subseq:
  "resolve_names (lookup_default [(ascii ''_key'', JInt 1),
     (ascii ''name'', JObj [(ascii ''zh'', JStr [39640, 32423, 36767, 37034])])] (ascii ''name'') (JObj []))
   = (JStr [], JStr [39640, 32423, 36767, 37034])"
  by (simp add: lookup_default_def ascii_def)

lemma index_record_34:
  "index_record py0 types_jsonl line_34 =
     Some \<lparr>e_id = ascii ''34'', e_file = types_jsonl, e_name_zh = JStr [],
       e_name_en = JStr (ascii ''Tritanium''), e_search_text = ascii ''34  tritanium'',
       e_json = line_34\<rparr>"
  by (simp add: index_record_def loads_34 record_34_def fields_34_def resolve_id_def lookup_default_def py_or_def
      str_int_def digits.simps lower_py0 ascii_fold_def strip_34 ascii_def)

lemma index_record_noid:
  "index_record py0 types_jsonl line_noid =
     Some \<lparr>e_id = [], e_file = types_jsonl, e_name_zh = JStr (ascii ''Veldspar''),
       e_name_en = JStr (ascii ''Veldspar''), e_search_text = ascii '' veldspar veldspar'',
       e_json = line_noid\<rparr>"
  by (simp add: index_record_def loads_noid record_noid_def fields_noid_def resolve_id_def lookup_default_def py_or_def
      lower_py0 ascii_fold_def strip_noid ascii_def)

lemma index_record_bad:
  "index_record py0 types_jsonl line_bad =
     Some \<lparr>e_id = ascii ''36'', e_file = types_jsonl, e_name_zh = JStr [],
       e_name_en = JArr [JStr (ascii ''Pyerite'')],
       e_search_text = ascii ''36  ['' @ [39] @ ascii ''pyerite'' @ [39] @ ascii '']'',
       e_json = line_bad\<rparr>"
  by (simp add: index_record_def loads_bad record_bad_def fields_bad_def resolve_id_def lookup_default_def py_or_def
      str_int_def digits.simps lower_py0 repr_py0 ascii_fold_def strip_bad ascii_def)

lemmas bind_defs = bind_entry_def bind_str_def surrogate_def utf8_len_def record_size_def
  column_size_def varint_len_def

lemma bind_34:
  "bind_entry \<lparr>e_id = ascii ''34'', e_file = types_jsonl, e_name_zh = JStr [],
       e_name_en = JStr (ascii ''Tritanium''), e_search_text = ascii ''34  tritanium'',
       e_json = line_34\<rparr> = Inr row_34"
  by (simp add: bind_defs row_34_def types_jsonl_def line_34_def ascii_def)

lemma bind_noid:
  "bind_entry \<lparr>e_id = [], e_file = types_jsonl, e_name_zh = JStr (ascii ''Veldspar''),
       e_name_en = JStr (ascii ''Veldspar''), e_search_text = ascii '' veldspar veldspar'',
       e_json = line_noid\<rparr> = Inr row_noid"
  by (simp add: bind_defs row_noid_def types_jsonl_def line_noid_def ascii_def)

lemma bind_bad:
  "bind_entry \<lparr>e_id = ascii ''36'', e_file = types_jsonl, e_name_zh = JStr [],
       e_name_en = JArr [JStr (ascii ''Pyerite'')],
       e_search_text = ascii ''36  ['' @ 39 # ascii ''pyerite'' @ 39 # ascii '']'',
       e_json = line_bad\<rparr> = Inl ProgrammingError"
  by (simp add: bind_defs types_jsonl_def ascii_def)

lemma build_noid:
  "build_index py0 [] (Some [(types_jsonl, Readable [line_noid])]) = ([row_noid], Inr True)"
  by (simp add: build_index_def connect_def commit_def close_def index_record_noid bind_noid
      jsonl_types Let_def)

lemma build_34:
  "build_index py0 [] (Some [(types_jsonl, Readable [line_34])]) = ([row_34], Inr True)"
  by (simp add: build_index_def connect_def commit_def close_def index_record_34 bind_34
      jsonl_types Let_def)

lemma build_bad:
  "build_index py0 [] (Some [(types_jsonl, Readable [line_34, line_bad])]) = ([], Inl ProgrammingError)"
  by (simp add: build_index_def connect_def rollback_def close_def index_record_34 index_record_bad
      bind_34 bind_bad jsonl_types Let_def)

lemmas dumps_defs = tagged_record_def removed_record_def quote_def escape_char_def str_int_def
  digits.simps ascii_def





lemma dumps_new_34:
  "json_dumps (tagged_record [(ascii ''_key'', JInt 34),
     (ascii ''name'', JObj [(ascii ''en'', JStr (ascii ''Tritanium''))])] (JStr (ascii ''newTable'')) ''added'') @ [10]
   = out_new_34"
  by (simp add: out_new_34_def dumps_defs)

lemma dumps_new_35:
  "json_dumps (tagged_record [(ascii ''_key'', JInt 35),
     (ascii ''name'', JObj [(ascii ''en'', JStr (ascii ''Tritanium''))])] (JStr (ascii ''newTable'')) ''added'') @ [10]
   = out_new_35"
  by (simp add: out_new_35_def dumps_defs)


lemma newTable_file_name: "py_str py0 (JStr (ascii ''newTable'')) @ ascii ''.jsonl'' = newTable_jsonl"
  by (simp add: newTable_jsonl_def ascii_def)

lemma file_names_differ: "sde_jsonl \<noteq> types_jsonl" "types_jsonl \<noteq> sde_jsonl"
  "sde_jsonl \<noteq> newTable_jsonl" "newTable_jsonl \<noteq> sde_jsonl"
  by (simp_all add: sde_jsonl_def types_jsonl_def newTable_jsonl_def ascii_def)


lemma source_new:
  "source_file_of py0 (Some [(sde_jsonl, Readable [line_sde_100]),
       (newTable_jsonl, Readable [line_34, line_35])]) (JStr (ascii ''newTable'')) =
     Some (Readable [line_34, line_35])"
  by (simp only: source_file_of_def newTable_file_name) (simp add: file_names_differ)

lemma log_name_100: "changes_file_name (ascii ''2026-01-01T11:00:00Z'') = log_100"
  by (simp add: changes_file_name_def log_100_def ascii_def)


lemma read_new:
  "read_SDE_latest_info up_new =
     Inr (JStr (ascii ''sde''), JInt 100, JStr (ascii ''2026-01-01T11:00:00Z''))"
  by (simp add: read_SDE_latest_info_def up_new_def record_sde_100_def fields_sde_100_def ascii_def)

lemma build_name_100: "str_int 100 = ascii ''100''"
  by (simp add: str_int_def digits.simps ascii_def)

lemma sde_file_99: "map_of [(sde_jsonl, Readable [line_sde_99]), (types_jsonl, Readable [line_34])]
     (ascii ''_sde.jsonl'') = Some (Readable [line_sde_99])"
  by (simp add: sde_jsonl_def)


lemma build_100: "dict_item record_sde_100 (ascii ''buildNumber'') = Inr (JInt 100)"
  by (simp add: record_sde_100_def fields_sde_100_def ascii_def)



lemma changes_new: "changes up_new (ascii ''100'') = Some [line_meta, line_new]"
  by (simp add: up_new_def)





section \<open>Search in the index\<close>

lemma search_keywords_Nil_iff:
  "search_keywords B keyword = [] \<longleftrightarrow> (\<forall>c\<in>set (lower B keyword). is_space c)"
  by (simp add: search_keywords_def split_Nil_iff strip_all_space_iff)

lemma search_keywords_chars:
  "kw \<in> set (search_keywords B keyword) \<Longrightarrow> set kw \<subseteq> set (lower B keyword)"
  unfolding search_keywords_def using set_split set_strip by blast

lemma search_no_keywords:
  "search_keywords B keyword = [] \<Longrightarrow> search B items keyword limit = Inl OperationalError"
  by (simp add: search_def select_items_where_def Let_def)

lemma search_many_keywords:
  "1000 \<le> length (search_keywords B keyword) \<Longrightarrow>
     search B items keyword limit = Inl OperationalError"
  by (auto simp: search_def select_items_where_def Let_def list_all_iff)

lemma search_unencodable:
  assumes "search_keywords B keyword = [kw]" and "list_ex surrogate kw"
  shows "search B items keyword limit = Inl UnicodeEncodeError"
  using assms by (simp add: search_def select_items_where_def Let_def bind_str_def)

lemma search_eq:
  assumes "searchable B keyword" and "- (2 ^ 63) \<le> limit" and "limit < 2 ^ 63"
  shows "search B items keyword limit =
     Inr (map result_of_row (sql_limit limit (matching_rows B items keyword)))"
proof -
  define params where "params = map (\<lambda>kw. [37] @ kw @ [37]) (search_keywords B keyword)"
  from assms(1) have k: "search_keywords B keyword \<noteq> []" "length (search_keywords B keyword) < 1000"
    and t: "\<forall>kw\<in>set (search_keywords B keyword). \<not> list_ex surrogate kw \<and> utf8_len kw + 2 \<le> 50000"
    by (simp_all add: searchable_def)
  from t have len: "\<forall>p\<in>set params. utf8_len p \<le> 50000"
    by (auto simp: params_def utf8_len_def)
  from t have "\<forall>p\<in>set params. \<not> list_ex surrogate p \<and> utf8_len p \<le> 1000000000"
    by (auto simp: params_def utf8_len_def surrogate_def)
  then have b: "bind_all params = Inr params" by (rule bind_all_ok)
  have f: "fetch params limit items = Inr (sql_limit limit (matching_rows B items keyword))"
    unfolding fetch_ok [OF len] by (simp add: matching_rows_def params_def)
  have "select_items_where items (map (\<lambda>kw. ascii ''search_text LIKE ?'') (search_keywords B keyword))
      params limit = Inr (sql_limit limit (matching_rows B items keyword))"
    using k b f assms(2,3) by (simp add: select_items_where_def list_all_iff params_def)
  then show ?thesis
    by (simp add: search_def Let_def params_def)
qed

lemma search_keywords_split: "search_keywords B keyword = split (lower B keyword)"
  by (simp add: search_keywords_def split_strip)

text \<open>
  C10, as amended. \<open>EveDB.search\<close> needs at least one keyword. When the lowered keyword
  splits into no token, which is exactly when it is empty or holds whitespace only, the
  statement has no condition after \<open>WHERE\<close> and the call raises instead of returning a
  list. A list is returned when there is at least one token and there are fewer than
  1000, each of which can be encoded as UTF-8 and is of at most 49998 bytes, the limit
  being a 64-bit integer.
\<close>

theorem search_requires_keyword:
  "(search_keywords B keyword = [] \<longrightarrow> search B items keyword limit = Inl OperationalError) \<and>
   (searchable B keyword \<and> - (2 ^ 63) \<le> limit \<and> limit < 2 ^ 63 \<longrightarrow>
      (\<exists>results. search B items keyword limit = Inr results)) \<and>
   (search_keywords B keyword = [] \<longleftrightarrow> (\<forall>c\<in>set (lower B keyword). is_space c))"
  by (simp add: search_eq search_no_keywords search_keywords_Nil_iff)

theorem search_requires_keyword_witness:
  "search py0 [row_34] [] 1000 = Inl OperationalError \<and>
   search py0 [row_34] (ascii ''  '') 1000 = Inl OperationalError \<and>
   (\<exists>results. search py0 [row_34] (ascii ''34'') 1000 = Inr results)"
  using search_requires_keyword [of py0 "[]" "[row_34]" 1000]
    search_requires_keyword [of py0 "ascii ''  ''" "[row_34]" 1000]
    search_requires_keyword [of py0 "ascii ''34''" "[row_34]" 1000] searchable_34
  by (simp only: keywords_empty keywords_blank) simp

text \<open>
  C10 as stated fails: a keyword of 1000 tokens has a token, and the call raises, the
  expression tree of the 1000 conditions being too deep for SQLite. So does the call
  for a keyword that is one surrogate code point, which cannot be encoded.
\<close>

theorem search_many_keywords_counterexample:
  "search_keywords py0 kw_1000 = replicate 1000 (ascii ''a'') \<and>
   search py0 [row_34] kw_1000 1000 = Inl OperationalError \<and>
   search_keywords py0 [55296] = [[55296]] \<and>
   search py0 [row_34] [55296] 1000 = Inl UnicodeEncodeError"
proof -
  have "search py0 [row_34] kw_1000 1000 = Inl OperationalError"
    by (rule search_many_keywords) (simp add: keywords_1000)
  moreover have "search py0 [row_34] [55296] 1000 = Inl UnicodeEncodeError"
    by (rule search_unencodable [OF keywords_surrogate]) (simp add: surrogate_def)
  ultimately show ?thesis using keywords_1000 keywords_surrogate by simp
qed

text \<open>
  C4, as amended. When the lowered keyword has at least one token and fewer than 1000,
  and no token holds \<open>%\<close>, \<open>_\<close>, a NUL character or a surrogate or is longer than 49998
  bytes, the rows \<open>search\<close> returns are, in table order and up to the limit, the rows
  whose search text has every token as a substring. The rows are those that
  \<open>build_index\<close> writes, whose search text is lowered and so free of ASCII capitals, as
  is the lowered keyword, and their search text holds no NUL character. For the query
  \<open>34 tritanium\<close> the row of id 34 is returned and the row of id 35 is not.
\<close>

theorem search_matches_substrings:
  assumes "searchable B keyword"
    and "\<forall>kw\<in>set (search_keywords B keyword). no_wildcard kw"
    and "no_upper (lower B keyword)" and "no_nul (lower B keyword)"
    and "\<forall>r\<in>set items. no_upper (search_text r) \<and> no_nul (search_text r)"
    and "- (2 ^ 63) \<le> limit" and "limit < 2 ^ 63"
  shows "search B items keyword limit =
       Inr (map result_of_row (sql_limit limit
         (filter (\<lambda>r. \<forall>kw\<in>set (search_keywords B keyword). sublist kw (search_text r)) items)))"
proof -
  have "(\<forall>kw\<in>set (search_keywords B keyword). like ([37] @ kw @ [37]) (search_text r)) \<longleftrightarrow>
        (\<forall>kw\<in>set (search_keywords B keyword). sublist kw (search_text r))"
    if r: "r \<in> set items" for r
  proof -
    from assms(5) r have ur: "no_upper (search_text r)" and nr: "no_nul (search_text r)"
      by blast+
    have "like ([37] @ kw @ [37]) (search_text r) \<longleftrightarrow> sublist kw (search_text r)"
      if kw: "kw \<in> set (search_keywords B keyword)" for kw
    proof -
      from kw assms(2) have w: "no_wildcard kw" by blast
      from search_keywords_chars [OF kw] assms(3) have u: "no_upper kw"
        by (auto simp: no_upper_def)
      from search_keywords_chars [OF kw] assms(4) have "no_nul ([37] @ kw @ [37])"
        by (auto simp: no_nul_def)
      from like_no_nul [OF this nr]
      have eq: "like ([37] @ kw @ [37]) (search_text r) = pattern_compare ([37] @ kw @ [37]) (search_text r)" .
      show ?thesis
      proof
        assume "like ([37] @ kw @ [37]) (search_text r)"
        with eq have "pattern_compare ([37] @ kw @ [37]) (search_text r)" by simp
        from like_imp_sublist [OF w u ur this] show "sublist kw (search_text r)" .
      next
        assume "sublist kw (search_text r)"
        then have "pattern_compare ([37] @ kw @ [37]) (search_text r)" by (rule sublist_imp_like)
        with eq show "like ([37] @ kw @ [37]) (search_text r)" by simp
      qed
    qed
    then show ?thesis by blast
  qed
  then have "matching_rows B items keyword =
      filter (\<lambda>r. \<forall>kw\<in>set (search_keywords B keyword). sublist kw (search_text r)) items"
    unfolding matching_rows_def by (intro filter_cong refl)
  with search_eq [OF assms(1,6,7)] show ?thesis by simp
qed

theorem search_matches_substrings_witness:
  "search py0 [row_34, row_35] (ascii ''34 tritanium'') 1000 = Inr [result_of_row row_34]"
proof -
  have 2: "\<forall>kw\<in>set (search_keywords py0 (ascii ''34 tritanium'')). no_wildcard kw"
    by (simp only: keywords_34_tritanium) (simp add: no_wildcard_def ascii_def)
  have 3: "no_upper (lower py0 (ascii ''34 tritanium''))"
    by (simp add: no_upper_def py0_def ascii_fold_def ascii_def)
  have 4: "no_nul (lower py0 (ascii ''34 tritanium''))"
    by (simp add: no_nul_def py0_def ascii_fold_def ascii_def)
  have 5: "\<forall>r\<in>set [row_34, row_35]. no_upper (search_text r) \<and> no_nul (search_text r)"
    by (simp add: no_upper_def no_nul_def row_34_def row_35_def ascii_def)
  have 6: "- (2 ^ 63) \<le> (1000::int)" "(1000::int) < 2 ^ 63" by simp_all
  have 7: "sublist (ascii ''34'') (search_text row_34)" "sublist (ascii ''tritanium'') (search_text row_34)"
    "\<not> sublist (ascii ''34'') (search_text row_35)"
    by (simp_all add: row_34_def row_35_def sublist_code prefix_code ascii_def)
  from search_matches_substrings [OF searchable_34_tritanium 2 3 4 5 6] 7 show ?thesis
    by (simp only: keywords_34_tritanium) (simp add: sql_limit_def)
qed

text \<open>
  C4 as stated fails in four ways. The token \<open>3_\<close> is not a substring of the search
  text of the row of id 35, yet the row is returned, since \<open>_\<close> is a wildcard of \<open>LIKE\<close>.
  The empty keyword has no token, so every row has all of them, yet the call raises.
  Of 1001 rows that hold the token, the last is not returned. And a row whose search
  text holds the token \<open>b\<close> after a NUL character is not returned, since \<open>LIKE\<close> reads the
  text up to that character.
\<close>

theorem search_substring_counterexample:
  "search py0 [row_35] (ascii ''3_ tritanium'') 1000 = Inr [result_of_row row_35] \<and>
   \<not> sublist (ascii ''3_'') (search_text row_35) \<and>
   search py0 [row_34] [] 1000 = Inl OperationalError \<and>
   search py0 (replicate 1000 row_34 @ [row_35]) (ascii ''tritanium'') 1000 =
     Inr (replicate 1000 (result_of_row row_34)) \<and>
   sublist (ascii ''tritanium'') (search_text row_35) \<and>
   result_of_row row_35 \<noteq> result_of_row row_34 \<and>
   search py0 [row_nul] (ascii ''b'') 1000 = Inr [] \<and>
   sublist (ascii ''b'') (search_text row_nul)"
proof -
  have r: "- (2 ^ 63) \<le> (1000::int)" "(1000::int) < 2 ^ 63" by simp_all
  have l: "like ([37] @ ascii ''3_'' @ [37]) (search_text row_35)"
    "like ([37] @ ascii ''tritanium'' @ [37]) (search_text row_35)"
    by (simp_all add: like_def c_str_def row_35_def ascii_fold_def ascii_def)
  have n: "\<not> sublist (ascii ''3_'') (search_text row_35)"
    by (simp add: row_35_def sublist_code prefix_code ascii_def)
  have a: "search py0 [row_35] (ascii ''3_ tritanium'') 1000 = Inr [result_of_row row_35]"
    using l by (simp only: search_eq [OF searchable_wild r] keywords_wild matching_rows_def)
      (simp add: sql_limit_def)
  have b: "search py0 [row_34] [] 1000 = Inl OperationalError"
    by (rule search_no_keywords [OF keywords_empty])
  have "matching_rows py0 (replicate 1000 row_34 @ [row_35]) (ascii ''tritanium'') =
      replicate 1000 row_34 @ [row_35]"
    using l(2) row_34_matches_tritanium
    by (simp only: matching_rows_def keywords_tritanium filter_append filter_replicate) simp
  then have c: "search py0 (replicate 1000 row_34 @ [row_35]) (ascii ''tritanium'') 1000 =
      Inr (replicate 1000 (result_of_row row_34))"
    by (simp only: search_eq [OF searchable_tritanium r]) (simp add: sql_limit_def)
  have d: "sublist (ascii ''tritanium'') (search_text row_35)"
    by (simp add: row_35_def sublist_code prefix_code ascii_def)
  have e: "result_of_row row_35 \<noteq> result_of_row row_34"
    by (simp add: result_of_row_def row_34_def row_35_def ascii_def)
  have "\<not> like ([37] @ ascii ''b'' @ [37]) (search_text row_nul)"
    by (simp add: like_def c_str_def row_nul_def ascii_fold_def ascii_def)
  then have f: "search py0 [row_nul] (ascii ''b'') 1000 = Inr []"
    by (simp only: search_eq [OF searchable_b r] keywords_b matching_rows_def) simp
  have g: "sublist (ascii ''b'') (search_text row_nul)"
    by (simp add: row_nul_def sublist_code prefix_code ascii_def)
  from a n b c d e f g show ?thesis by blast
qed

text \<open>
  C6, as amended. For a keyword that SQLite takes (at least one token and fewer than
  1000, each of which can be encoded and is of at most 49998 bytes), \<open>SearchWorker.run\<close>
  emits one result for each of the first 1000 rows that satisfy the \<open>WHERE\<close> clause, in
  table order, and then reports the number of results it emitted, which is the smaller
  of 1000 and the number of matching rows. The number of matching rows itself is not
  reported.
\<close>

theorem SearchWorker_reports_page_length:
  assumes "searchable B keyword"
  shows "SearchWorker_run B (Some items) keyword =
     map (\<lambda>r. emit_result (result_of_row r)) (take 1000 (matching_rows B items keyword))
     @ [finished (min 1000 (length (matching_rows B items keyword)))]"
proof -
  have "search B items keyword 1000 =
      Inr (map result_of_row (sql_limit 1000 (matching_rows B items keyword)))"
    by (rule search_eq [OF assms]) simp_all
  then show ?thesis
    by (simp add: SearchWorker_run_def sql_limit_def min.commute)
qed

lemma matching_1001:
  "matching_rows py0 (replicate 1001 row_34) (ascii ''34'') = replicate 1001 row_34"
  using row_34_matches_34
  by (simp only: matching_rows_def keywords_34 filter_replicate) simp

theorem SearchWorker_reports_page_length_witness:
  "SearchWorker_run py0 (Some [row_34, row_35]) (ascii ''34'') =
     [emit_result (result_of_row row_34), finished 1]"
proof -
  have "\<not> like ([37] @ ascii ''34'' @ [37]) (search_text row_35)"
    by (simp add: like_def c_str_def row_35_def ascii_def ascii_fold_def)
  with row_34_matches_34
  have "matching_rows py0 [row_34, row_35] (ascii ''34'') = [row_34]"
    by (simp only: matching_rows_def keywords_34) simp
  with SearchWorker_reports_page_length [OF searchable_34, of "[row_34, row_35]"] show ?thesis
    by simp
qed

text \<open>
  C6 as stated fails: with 1001 matching rows the count reported is 1000.
\<close>

theorem SearchWorker_count_counterexample:
  "SearchWorker_run py0 (Some (replicate 1001 row_34)) (ascii ''34'') =
     replicate 1000 (emit_result (result_of_row row_34)) @ [finished 1000] \<and>
   length (matching_rows py0 (replicate 1001 row_34) (ascii ''34'')) = 1001"
proof -
  have "search py0 (replicate 1001 row_34) (ascii ''34'') 1000 =
      Inr (map result_of_row (sql_limit 1000 (matching_rows py0 (replicate 1001 row_34) (ascii ''34''))))"
    by (rule search_eq [OF searchable_34]) simp_all
  then have "search py0 (replicate 1001 row_34) (ascii ''34'') 1000 = Inr (replicate 1000 (result_of_row row_34))"
    by (simp only: matching_1001) (simp add: sql_limit_def)
  then show ?thesis
    by (simp add: SearchWorker_run_def matching_1001)
qed

section \<open>Rows of the index\<close>

lemma bind_str_ok: "bindable s \<Longrightarrow> bind_str s = Inr s"
  by (simp add: bindable_def bind_str_def)

lemma sql_text_column: "storable v \<Longrightarrow> sql_text v = Inr (column v)"
  by (simp add: storable_def column_def split: sum.splits)

lemma bind_entry_ok: "entry_ok e \<Longrightarrow> bind_entry e = Inr (entry_row e)"
proof -
  assume ok: "entry_ok e"
  then have "record_size (entry_row e) \<le> 1000000000" by (simp add: entry_ok_def)
  then have "\<not> 1000000000 < record_size \<lparr>row_id = e_id e, source_file = e_file e,
      name_zh = column (e_name_zh e), name_en = column (e_name_en e),
      search_text = e_search_text e, json_data = e_json e\<rparr>"
    by (simp add: entry_row_def)
  with ok show ?thesis
    by (simp add: entry_ok_def bind_entry_def bind_str_ok sql_text_column entry_row_def Let_def)
qed

lemma executemany_ok:
  "\<forall>e\<in>set es. entry_ok e \<Longrightarrow>
     executemany c es = (c\<lparr>current := current c @ map entry_row es\<rparr>, None)"
  by (induction es arbitrary: c) (simp_all add: bind_entry_ok)

lemma index_lines_ok:
  assumes "\<forall>line\<in>set lines. \<forall>e. index_record B f line = Some e \<longrightarrow> entry_ok e"
    and "\<forall>e\<in>set batch. entry_ok e"
  shows "\<exists>batch' c'. index_lines B f lines batch c = (batch', c') \<and>
     (\<forall>e\<in>set batch'. entry_ok e) \<and> committed c' = committed c \<and>
     current c' @ map entry_row batch' =
       current c @ map entry_row batch @ map entry_row (List.map_filter (index_record B f) lines)"
  using assms
proof (induction lines arbitrary: batch c)
  case Nil
  then show ?case by (simp add: map_filter_simps)
next
  case (Cons line lines)
  from Cons.prems(1) have rest: "\<forall>line\<in>set lines. \<forall>e. index_record B f line = Some e \<longrightarrow> entry_ok e"
    by simp
  show ?case
  proof (cases "index_record B f line")
    case None
    with Cons.IH [OF rest Cons.prems(2), of c] show ?thesis
      by (simp add: map_filter_simps)
  next
    case (Some e)
    with Cons.prems(1) have e: "entry_ok e" by simp
    with Cons.prems(2) have b: "\<forall>x\<in>set (batch @ [e]). entry_ok x" by simp
    show ?thesis
    proof (cases "length (batch @ [e]) \<ge> 1000")
      case True
      define c1 where "c1 = c\<lparr>current := current c @ map entry_row (batch @ [e])\<rparr>"
      have ex: "executemany c (batch @ [e]) = (c1, None)"
        unfolding c1_def by (rule executemany_ok [OF b])
      have "\<forall>x\<in>set ([]::entry list). entry_ok x" by simp
      from Cons.IH [OF rest this, of c1] obtain batch' c' where
        r: "index_lines B f lines [] c1 = (batch', c')" "\<forall>e\<in>set batch'. entry_ok e"
          "committed c' = committed c1"
          "current c' @ map entry_row batch' =
             current c1 @ map entry_row [] @ map entry_row (List.map_filter (index_record B f) lines)"
        by blast
      from True Some ex r(1) have "index_lines B f (line # lines) batch c = (batch', c')"
        by (simp del: length_append)
      moreover from r(3) have "committed c' = committed c" by (simp add: c1_def)
      moreover from r(4) have "current c' @ map entry_row batch' =
          current c @ map entry_row batch @ map entry_row (List.map_filter (index_record B f) (line # lines))"
        using Some by (simp add: c1_def map_filter_simps)
      ultimately show ?thesis using r(2) by blast
    next
      case False
      from Cons.IH [OF rest b, of c] obtain batch' c' where
        r: "index_lines B f lines (batch @ [e]) c = (batch', c')" "\<forall>e\<in>set batch'. entry_ok e"
          "committed c' = committed c"
          "current c' @ map entry_row batch' =
             current c @ map entry_row (batch @ [e]) @ map entry_row (List.map_filter (index_record B f) lines)"
        by blast
      from False Some r(1) have "index_lines B f (line # lines) batch c = (batch', c')"
        by (simp del: length_append)
      moreover from r(4) have "current c' @ map entry_row batch' =
          current c @ map entry_row batch @ map entry_row (List.map_filter (index_record B f) (line # lines))"
        using Some by (simp add: map_filter_simps)
      ultimately show ?thesis using r(2,3) by blast
    qed
  qed
qed

lemma resolve_id_described:
  assumes "id_field_ok (lookup_default kvs (ascii ''_key'') JNull)"
    and "id_field_ok (lookup_default kvs (ascii ''id'') JNull)"
    and "id_field_ok (lookup_default kvs (ascii ''typeID'') JNull)"
  shows "(if resolve_id kvs \<noteq> JNull then py_str B (resolve_id kvs) else []) = described_id B kvs"
  using assms by (auto simp: resolve_id_def described_id_def py_or_def id_field_ok_def Let_def)

lemma resolve_names_described:
  "resolve_names (lookup_default kvs (ascii ''name'') (JObj [])) =
     (described_name (ascii ''en'') kvs, described_name (ascii ''zh'') kvs)"
  by (cases "lookup_default kvs (ascii ''name'') (JObj [])") (simp_all add: described_name_def)

lemma index_record_described:
  assumes "id_fields_ok B line"
  shows "map_option entry_row (index_record B f line) = described_row B f line"
proof (cases "loads B line")
  case None
  then show ?thesis by (simp add: index_record_def described_row_def)
next
  case (Some v)
  show ?thesis
  proof (cases v)
    case (JObj kvs)
    with Some assms have ok: "id_field_ok (lookup_default kvs (ascii ''_key'') JNull)"
      "id_field_ok (lookup_default kvs (ascii ''id'') JNull)"
      "id_field_ok (lookup_default kvs (ascii ''typeID'') JNull)"
      by (simp_all add: id_fields_ok_def)
    from Some JObj show ?thesis
      by (simp add: index_record_def described_row_def Let_def resolve_names_described
          resolve_id_described [OF ok] entry_row_def)
  qed (use Some in \<open>simp_all add: index_record_def described_row_def\<close>)
qed

lemma index_record_is_record: "index_record B f line = None \<longleftrightarrow> \<not> is_record B line"
  by (auto simp: index_record_def is_record_def Let_def split: option.splits json.splits prod.splits)

lemma rows_of_lines:
  "list_all2 (\<lambda>(f', line) r. id_fields_ok B line \<longrightarrow> described_row B f' line = Some r)
     (map (Pair f) (filter (is_record B) lines))
     (map entry_row (List.map_filter (index_record B f) lines))"
proof (induction lines)
  case Nil
  show ?case by (simp add: map_filter_simps)
next
  case (Cons line lines)
  show ?case
  proof (cases "index_record B f line")
    case None
    then have "\<not> is_record B line" by (simp add: index_record_is_record)
    with None Cons show ?thesis by (simp add: map_filter_simps)
  next
    case (Some e)
    then have r: "is_record B line" using index_record_is_record [of B f line] by simp
    have "described_row B f line = Some (entry_row e)" if "id_fields_ok B line"
      using index_record_described [OF that, of f] Some by simp
    with Some r Cons show ?thesis by (simp add: map_filter_simps)
  qed
qed

lemma rows_of_files:
  "list_all2 (\<lambda>(f, line) r. id_fields_ok B line \<longrightarrow> described_row B f line = Some r)
     (records B dir) (index_rows B dir)"
proof (induction dir)
  case Nil
  show ?case by (simp add: records_def index_rows_def)
next
  case (Cons nf dir)
  obtain f content where nf: "nf = (f, content)" by (cases nf)
  show ?case
  proof (cases "suffix (ascii ''.jsonl'') f")
    case False
    with Cons nf show ?thesis by (simp add: records_def index_rows_def)
  next
    case True
    show ?thesis
    proof (cases content)
      case Unreadable
      with Cons nf True show ?thesis by (simp add: records_def index_rows_def)
    next
      case (Readable lines)
      from rows_of_lines [of B f lines] Cons
      have "list_all2 (\<lambda>(f, line) r. id_fields_ok B line \<longrightarrow> described_row B f line = Some r)
          (map (Pair f) (filter (is_record B) lines) @ records B dir)
          (map entry_row (List.map_filter (index_record B f) lines) @ index_rows B dir)"
        by (rule list_all2_appendI)
      with nf True Readable show ?thesis by (simp add: records_def index_rows_def)
    qed
  qed
qed

lemma index_files_ok:
  assumes "indexable B files"
    and "\<forall>(f, content)\<in>set files. suffix (ascii ''.jsonl'') f"
  shows "\<exists>c'. index_files B files c = (c', None) \<and> committed c' = committed c \<and>
     current c' = current c @ concat (map (\<lambda>(f, content). case content of
                     Readable lines \<Rightarrow> map entry_row (List.map_filter (index_record B f) lines)
                   | Unreadable \<Rightarrow> []) files)"
  using assms
proof (induction files arbitrary: c)
  case Nil
  show ?case by simp
next
  case (Cons nf files)
  obtain f content where nf: "nf = (f, content)" by (cases nf)
  from Cons.prems nf have rest: "indexable B files" "\<forall>(f, content)\<in>set files. suffix (ascii ''.jsonl'') f"
    by (auto simp: indexable_def)
  from Cons.prems nf obtain lines where content: "content = Readable lines"
    and lines: "\<forall>line\<in>set lines. storable_line B f line"
    by (cases content) (auto simp: indexable_def)
  have ok: "\<forall>line\<in>set lines. \<forall>e. index_record B f line = Some e \<longrightarrow> entry_ok e"
    using lines by (auto simp: storable_line_def split: option.splits)
  have "\<forall>e\<in>set ([]::entry list). entry_ok e" by simp
  from index_lines_ok [OF ok this, of c] obtain batch c1 where
    il: "index_lines B f lines [] c = (batch, c1)" and b: "\<forall>e\<in>set batch. entry_ok e"
    and cm: "committed c1 = committed c"
    and cur: "current c1 @ map entry_row batch =
       current c @ map entry_row (List.map_filter (index_record B f) lines)"
    by auto
  define c2 where "c2 = (if batch \<noteq> [] then c1\<lparr>current := current c1 @ map entry_row batch\<rparr> else c1)"
  have step: "index_files B (nf # files) c = index_files B files c2"
    using nf content il executemany_ok [OF b, of c1] by (simp add: c2_def)
  have c2: "committed c2 = committed c"
    "current c2 = current c @ map entry_row (List.map_filter (index_record B f) lines)"
    using cm cur by (auto simp: c2_def)
  from Cons.IH [OF rest, of c2] obtain c' where
    "index_files B files c2 = (c', None)" "committed c' = committed c2"
    "current c' = current c2 @ concat (map (\<lambda>(f, content). case content of
                     Readable lines \<Rightarrow> map entry_row (List.map_filter (index_record B f) lines)
                   | Unreadable \<Rightarrow> []) files)"
    by blast
  with step c2 nf content show ?case by simp
qed

lemma indexable_filter:
  "indexable B dir \<Longrightarrow> indexable B (filter (\<lambda>(f, content). suffix (ascii ''.jsonl'') f) dir)"
  by (auto simp: indexable_def)

lemma build_index_index_rows:
  assumes "indexable B dir"
  shows "build_index B items (Some dir) = (items @ index_rows B dir, Inr True)"
proof -
  define files where "files = filter (\<lambda>(f, content). suffix (ascii ''.jsonl'') f) dir"
  have "indexable B files" unfolding files_def using assms by (rule indexable_filter)
  moreover have "\<forall>(f, content)\<in>set files. suffix (ascii ''.jsonl'') f"
    by (auto simp: files_def)
  ultimately obtain c' where "index_files B files (connect items) = (c', None)"
    "current c' = current (connect items) @ concat (map (\<lambda>(f, content). case content of
                     Readable lines \<Rightarrow> map entry_row (List.map_filter (index_record B f) lines)
                   | Unreadable \<Rightarrow> []) files)"
    using index_files_ok [of B files "connect items"] by blast
  then show ?thesis
    by (simp add: build_index_def index_rows_def files_def [symmetric] Let_def connect_def
        commit_def close_def)
qed

text \<open>
  C5, as amended. \<open>build_index\<close> appends one row for every line of every \<open>.jsonl\<close> file
  that parses to a dictionary, in order. For each record whose id fields hold no value
  that Python counts as false, the row is the one described: the id is the first of
  \<open>_key\<close>, \<open>id\<close>, \<open>typeID\<close> that the record holds, as a string; a name that is a mapping
  gives its \<open>en\<close> and \<open>zh\<close> sub-keys, a plain string serves both; the search text is the
  lowered \<open>id + " " + name_zh + " " + name_en\<close>. A record that holds none of the three
  id fields is not left out: it is indexed under the empty id. The statement is about
  snapshots whose files can be read and whose records SQLite can store.
\<close>

theorem build_index_rows:
  assumes "indexable B dir"
  shows "\<exists>rows. build_index B items (Some dir) = (items @ rows, Inr True) \<and>
     list_all2 (\<lambda>(f, line) r. id_fields_ok B line \<longrightarrow> described_row B f line = Some r)
       (records B dir) rows"
  using build_index_index_rows [OF assms] rows_of_files by blast

lemma entry_ok_34:
  "entry_ok \<lparr>e_id = ascii ''34'', e_file = types_jsonl, e_name_zh = JStr [],
     e_name_en = JStr (ascii ''Tritanium''), e_search_text = ascii ''34  tritanium'', e_json = line_34\<rparr>"
  by (simp add: entry_ok_def bindable_def storable_def bind_str_def surrogate_def utf8_len_def
      record_size_def column_size_def varint_len_def entry_row_def column_def types_jsonl_def
      line_34_def ascii_def)

lemma entry_ok_noid:
  "entry_ok \<lparr>e_id = [], e_file = types_jsonl, e_name_zh = JStr (ascii ''Veldspar''),
     e_name_en = JStr (ascii ''Veldspar''), e_search_text = ascii '' veldspar veldspar'',
     e_json = line_noid\<rparr>"
  by (simp add: entry_ok_def bindable_def storable_def bind_str_def surrogate_def utf8_len_def
      record_size_def column_size_def varint_len_def entry_row_def column_def types_jsonl_def
      line_noid_def ascii_def)

lemma ids_ok_34: "id_fields_ok py0 line_34"
  by (simp add: id_fields_ok_def loads_34 record_34_def fields_34_def lookup_default_def
      id_field_ok_def ascii_def)

lemma ids_ok_noid: "id_fields_ok py0 line_noid"
  by (simp add: id_fields_ok_def loads_noid record_noid_def fields_noid_def lookup_default_def
      id_field_ok_def ascii_def)

lemma described_34: "described_row py0 types_jsonl line_34 = Some row_34"
  by (simp add: described_row_def loads_34 record_34_def fields_34_def lookup_default_def described_id_def
      described_name_def column_def bind_str_def surrogate_def utf8_len_def row_34_def str_int_def
      digits.simps lower_py0 ascii_fold_def strip_34 ascii_def)

lemma described_noid: "described_row py0 types_jsonl line_noid = Some row_noid"
  by (simp add: described_row_def loads_noid record_noid_def fields_noid_def lookup_default_def described_id_def
      described_name_def column_def bind_str_def surrogate_def utf8_len_def row_noid_def lower_py0
      ascii_fold_def strip_noid ascii_def)

theorem build_index_rows_witness:
  "build_index py0 [row_35] (Some [(types_jsonl, Readable [line_34, line_noid])]) =
     ([row_35, row_34, row_noid], Inr True)"
proof -
  have i: "indexable py0 [(types_jsonl, Readable [line_34, line_noid])]"
    by (simp add: indexable_def storable_line_def index_record_34 index_record_noid
        entry_ok_34 entry_ok_noid)
  have r: "records py0 [(types_jsonl, Readable [line_34, line_noid])] =
      [(types_jsonl, line_34), (types_jsonl, line_noid)]"
    by (simp add: records_def jsonl_types is_record_def loads_34 loads_noid record_34_def
        record_noid_def)
  from build_index_rows [OF i, of "[row_35]"] show ?thesis
    by (auto simp: r list_all2_Cons1 ids_ok_34 ids_ok_noid described_34 described_noid)
qed

text \<open>
  C5 as stated fails: a record with no id field is indexed, with the empty id.
\<close>

theorem record_without_id_counterexample:
  "build_index py0 [] (Some [(types_jsonl, Readable [line_noid])]) = ([row_noid], Inr True) \<and>
   loads py0 line_noid = Some (JObj [(ascii ''name'', JStr (ascii ''Veldspar''))]) \<and>
   row_id row_noid = []"
  using build_noid loads_noid by (simp add: record_noid_def fields_noid_def row_noid_def)

section \<open>A rebuild that fails\<close>

lemma executemany_committed: "committed (fst (executemany c es)) = committed c"
  by (induction es arbitrary: c) (auto split: sum.splits)

lemma index_lines_committed: "committed (snd (index_lines B f lines batch c)) = committed c"
proof (induction lines arbitrary: batch c)
  case Nil
  show ?case by simp
next
  case (Cons line lines)
  show ?case
  proof (cases "index_record B f line")
    case None
    with Cons.IH show ?thesis by simp
  next
    case (Some e)
    obtain c' r where ex: "executemany c (batch @ [e]) = (c', r)" by (cases "executemany c (batch @ [e])")
    then have "committed c' = committed c" using executemany_committed [of c "batch @ [e]"] by simp
    with Some ex Cons.IH show ?thesis by (cases r) (auto simp del: length_append)
  qed
qed

lemma index_files_committed: "committed (fst (index_files B files c)) = committed c"
proof (induction files arbitrary: c)
  case Nil
  show ?case by simp
next
  case (Cons nf files)
  obtain file_name f where nf: "nf = (file_name, f)" by (cases nf)
  show ?case
  proof (cases f)
    case Unreadable
    with nf show ?thesis by simp
  next
    case (Readable lines)
    obtain batch c' where il: "index_lines B file_name lines [] c = (batch, c')"
      by (cases "index_lines B file_name lines [] c")
    then have c': "committed c' = committed c"
      using index_lines_committed [of B file_name lines "[]" c] by simp
    obtain c'' r where ex: "executemany c' batch = (c'', r)" by (cases "executemany c' batch")
    then have "committed c'' = committed c'" using executemany_committed [of c' batch] by simp
    with nf Readable il ex c' Cons.IH show ?thesis by (cases r) auto
  qed
qed

lemma build_index_error: "build_index B items sde_dir = (items', Inl err) \<Longrightarrow> items' = items"
proof (cases sde_dir)
  case None
  assume "build_index B items sde_dir = (items', Inl err)"
  with None show ?thesis
    by (simp add: build_index_def connect_def rollback_def close_def)
next
  case (Some dir)
  assume b: "build_index B items sde_dir = (items', Inl err)"
  define files where "files = filter (\<lambda>(f, content). suffix (ascii ''.jsonl'') f) dir"
  obtain c' r where f: "index_files B files (connect items) = (c', r)"
    by (cases "index_files B files (connect items)")
  then have "committed c' = items"
    using index_files_committed [of B files "connect items"] by (simp add: connect_def)
  with b Some f show ?thesis
    by (cases r) (auto simp: build_index_def files_def rollback_def close_def commit_def)
qed

lemma clear_db_empty: "clear_db items = []"
  by (simp add: clear_db_def connect_def commit_def close_def)

text \<open>
  C9, as amended. A rebuild that fails does not bring the earlier rows back: the table
  was emptied, and that was committed, before the scan began; what the failed scan
  inserted is rolled back. So whenever \<open>IndexWorker.run\<close> finds the snapshot directory
  and reports failure, \<open>build_index\<close> has raised and the index store is left empty.
\<close>

theorem failed_rebuild_leaves_store_empty:
  "IndexWorker_run B (Some dir) store = (store', False) \<Longrightarrow>
     store' = Some [] \<and> (\<exists>err. build_index B [] (Some dir) = ([], Inl err))"
proof -
  assume r: "IndexWorker_run B (Some dir) store = (store', False)"
  obtain items' res where b: "build_index B [] (Some dir) = (items', res)"
    by (cases "build_index B [] (Some dir)")
  show ?thesis
  proof (cases res)
    case (Inl err)
    with b have "items' = []" by (simp add: build_index_error)
    with r b Inl show ?thesis by (simp add: IndexWorker_run_def clear_db_empty)
  next
    case (Inr ok)
    with r b show ?thesis by (simp add: IndexWorker_run_def clear_db_empty)
  qed
qed

lemma build_unreadable:
  "build_index py0 [] (Some [(types_jsonl, Readable [line_34]), (newTable_jsonl, Unreadable)]) =
     ([], Inl OSError)"
  by (simp add: build_index_def connect_def rollback_def close_def index_record_34 bind_34
      jsonl_types jsonl_newTable Let_def)

theorem failed_rebuild_leaves_store_empty_witness:
  "IndexWorker_run py0 (Some [(types_jsonl, Readable [line_34]), (newTable_jsonl, Unreadable)])
     (Some [row_35]) = (Some [], False) \<and>
   build_index py0 [] (Some [(types_jsonl, Readable [line_34]), (newTable_jsonl, Unreadable)]) =
     ([], Inl OSError)"
proof -
  have "\<exists>store'. IndexWorker_run py0
      (Some [(types_jsonl, Readable [line_34]), (newTable_jsonl, Unreadable)]) (Some [row_35]) =
      (store', False)"
    by (simp add: IndexWorker_run_def clear_db_empty build_unreadable)
  then obtain store' where
    r: "IndexWorker_run py0
      (Some [(types_jsonl, Readable [line_34]), (newTable_jsonl, Unreadable)]) (Some [row_35]) =
      (store', False)"
    by blast
  from failed_rebuild_leaves_store_empty [OF r] r build_unreadable show ?thesis by simp
qed

text \<open>
  C9 as stated fails: the store holds a row, the second record of the snapshot has a
  list for a name, which cannot be stored; the rebuild reports failure and the store is
  empty afterwards.
\<close>

theorem failed_rebuild_counterexample:
  "IndexWorker_run py0 (Some [(types_jsonl, Readable [line_34, line_bad])]) (Some [row_35]) =
     (Some [], False) \<and>
   build_index py0 [] (Some [(types_jsonl, Readable [line_34, line_bad])]) =
     ([], Inl ProgrammingError) \<and>
   Some [] \<noteq> Some [row_35]"
  by (simp add: IndexWorker_run_def clear_db_empty build_bad)

text \<open>The same happens when the snapshot directory is missing: it is looked for after the table is emptied.\<close>

lemma rebuild_without_snapshot:
  "IndexWorker_run B None (Some items) = (Some [], False)"
  by (simp add: IndexWorker_run_def clear_db_empty)

section \<open>The scan and the index\<close>

text \<open>
  C7. On the scan without an index, a record whose names are strings is kept if and
  only if every token of the lowered, whitespace-split keyword is a substring of the
  lowered text \<open>name_en + " " + name_zh\<close> or, failing that, a subsequence of it (its
  characters occur there in order). So the keyword U+9AD8 U+8F9F U+90AA matches the
  name U+9AD8 U+7EA7 U+8F9F U+90AA: it is not a substring of it, but a subsequence.
\<close>

theorem scan_record_keeps_iff:
  assumes "loads B line = Some (JObj kvs)"
    and "resolve_names (lookup_default kvs (ascii ''name'') (JObj [])) = (JStr en, JStr zh)"
  shows "(\<exists>ev. scan_record B (scan_keywords B keyword) file_name line = Some ev) \<longleftrightarrow>
     (\<forall>kw\<in>set (split (lower B keyword)).
        sublist kw (lower B (en @ [32] @ zh)) \<or> subseq kw (lower B (en @ [32] @ zh)))"
  using assms
  by (simp add: scan_record_def scan_keywords_def list_all_iff kw_matches_iff Let_def)

theorem scan_record_keeps_iff_witness:
  "(\<exists>ev. scan_record py0 (scan_keywords py0 kw_subseq) types_jsonl line_subseq = Some ev) \<and>
   \<not> sublist kw_subseq (lower py0 ([] @ [32] @ [39640, 32423, 36767, 37034])) \<and>
   subseq kw_subseq (lower py0 ([] @ [32] @ [39640, 32423, 36767, 37034]))"
proof -
  have l: "loads py0 line_subseq = Some (JObj [(ascii ''_key'', JInt 1),
     (ascii ''name'', JObj [(ascii ''zh'', JStr [39640, 32423, 36767, 37034])])])"
    by (simp add: loads_subseq record_subseq_def fields_subseq_def)
  have s: "split (lower py0 kw_subseq) = [kw_subseq]"
    using scan_keywords_subseq by (simp add: scan_keywords_def)
  have t: "lower py0 ([] @ [32] @ [39640, 32423, 36767, 37034]) = [32, 39640, 32423, 36767, 37034]"
    by (simp add: lower_py0 ascii_fold_def)
  have n: "\<not> sublist kw_subseq [32, 39640, 32423, 36767, 37034]"
    by (simp add: kw_subseq_def sublist_code prefix_code)
  have q: "subseq kw_subseq [32, 39640, 32423, 36767, 37034]"
    by (simp add: kw_subseq_def)
  from scan_record_keeps_iff [OF l names_subseq, of kw_subseq types_jsonl] n q
  show ?thesis by (simp only: s t) simp
qed

lemma scan_subseq:
  "scan_record py0 [kw_subseq] types_jsonl line_subseq =
     Some (result_found types_jsonl (ascii ''1'') (Some [39640, 32423, 36767, 37034]) (Some [])
       line_subseq)"
proof -
  have "kw_matches [32, 39640, 32423, 36767, 37034] kw_subseq"
    by (simp add: kw_matches_iff kw_subseq_def)
  then show ?thesis
    by (simp add: scan_record_def loads_subseq record_subseq_def fields_subseq_def
        lookup_default_def resolve_id_def py_or_def lower_py0 ascii_fold_def strip_subseq
        str_int_def digits.simps ascii_def)
qed

lemma scan_subseq_34: "scan_record py0 [kw_subseq] types_jsonl line_34 = None"
proof -
  have "\<not> kw_matches (map ascii_fold (ascii ''Tritanium'' @ [32])) kw_subseq"
    by (simp add: kw_matches_iff kw_subseq_def sublist_code prefix_code ascii_fold_def ascii_def)
  then show ?thesis
    by (simp add: scan_record_def loads_34 record_34_def fields_34_def lookup_default_def
        resolve_id_def py_or_def lower_py0 ascii_def)
qed

text \<open>A whole scan for that keyword over a table of two records.\<close>

lemma scan_run_subseq:
  "SearchWorker_run_scan py0 (Some [(types_jsonl, Readable [line_subseq, line_34])]) kw_subseq =
     [result_found types_jsonl (ascii ''1'') (Some [39640, 32423, 36767, 37034]) (Some [])
        line_subseq,
      finished 1]"
  by (simp add: SearchWorker_run_scan_def jsonl_types scan_keywords_subseq scan_file_def
      map_filter_simps scan_subseq scan_subseq_34)

text \<open>
  C8, as amended. The two paths agree in one direction. If the keyword is one that
  SQLite takes (at least one token and fewer than 1000, each of which can be encoded and
  is of at most 49998 bytes), every token is a substring of the text the scan matches
  against, and the row of the record can be stored and holds no NUL character in its
  search text, then the scan keeps the record, and the search of the index returns the
  row that \<open>build_index\<close> writes for it. The statement takes \<open>str.lower\<close> to act on the
  names and the id separately, as it does on the concatenations here. The converse does
  not hold: the index text begins with the id, which the scan does not look at.
\<close>

theorem direct_scan_match_is_indexed_match:
  assumes "loads B line = Some (JObj kvs)"
    and "resolve_names (lookup_default kvs (ascii ''name'') (JObj [])) = (JStr en, JStr zh)"
    and "searchable B keyword"
    and "\<forall>kw\<in>set (scan_keywords B keyword). sublist kw (lower B (en @ [32] @ zh))"
    and "ident = (if resolve_id kvs \<noteq> JNull then py_str B (resolve_id kvs) else [])"
    and "lower B (en @ [32] @ zh) = lower B en @ [32] @ lower B zh"
    and "lower B (ident @ [32] @ zh @ [32] @ en) = lower B ident @ [32] @ lower B zh @ [32] @ lower B en"
    and "index_record B file_name line = Some e"
    and "entry_ok e" and "no_nul (e_search_text e)"
  shows "(\<exists>ev. scan_record B (scan_keywords B keyword) file_name line = Some ev) \<and>
     bind_entry e = Inr (entry_row e) \<and>
     search B [entry_row e] keyword 1000 = Inr [result_of_row (entry_row e)]"
proof -
  have k: "search_keywords B keyword = scan_keywords B keyword"
    by (simp add: search_keywords_split scan_keywords_def)
  have scan: "\<exists>ev. scan_record B (scan_keywords B keyword) file_name line = Some ev"
    using assms(1,2,4) by (simp add: scan_record_def list_all_iff kw_matches_iff Let_def)
  define stext where "stext = lower B ident @ [32] @ lower B zh @ [32] @ lower B en"
  have "index_record B file_name line = Some \<lparr>e_id = ident, e_file = file_name, e_name_zh = JStr zh,
     e_name_en = JStr en, e_search_text = stext, e_json = strip line\<rparr>"
    using assms(1,2,5,7) by (simp add: index_record_def Let_def stext_def)
  with assms(8) have st: "e_search_text e = stext" by auto
  with assms(10) have nn: "no_nul stext" by simp
  have "like ([37] @ kw @ [37]) stext" if kw: "kw \<in> set (scan_keywords B keyword)" for kw
  proof -
    from kw have "\<forall>c\<in>set kw. \<not> is_space c"
      unfolding scan_keywords_def by (rule split_no_space)
    with space_32 have "32 \<notin> set kw" by blast
    moreover from kw assms(4,6) have "sublist kw (lower B en @ [32] @ lower B zh)" by simp
    ultimately have "sublist kw (lower B en) \<or> sublist kw (lower B zh)"
      by (rule sublist_separator)
    then have sub: "sublist kw stext"
    proof
      assume "sublist kw (lower B en)"
      also have "sublist (lower B en) stext" unfolding stext_def
        by (metis append.assoc sublist_append_leftI)
      finally show ?thesis .
    next
      assume "sublist kw (lower B zh)"
      also have "sublist (lower B zh) stext" unfolding stext_def
        by (metis append.assoc sublist_appendI)
      finally show ?thesis .
    qed
    then have "set kw \<subseteq> set stext" by (rule set_mono_sublist)
    with nn have "no_nul ([37] @ kw @ [37])" by (auto simp: no_nul_def)
    from like_no_nul [OF this nn] sublist_imp_like [OF sub] show ?thesis by simp
  qed
  then have "matching_rows B [entry_row e] keyword = [entry_row e]"
    by (simp add: matching_rows_def k entry_row_def st)
  moreover have "search B [entry_row e] keyword 1000 =
      Inr (map result_of_row (sql_limit 1000 (matching_rows B [entry_row e] keyword)))"
    by (rule search_eq [OF assms(3)]) simp_all
  ultimately have "search B [entry_row e] keyword 1000 = Inr [result_of_row (entry_row e)]"
    by (simp add: sql_limit_def)
  with scan bind_entry_ok [OF assms(9)] show ?thesis by blast
qed

theorem direct_scan_match_is_indexed_match_witness:
  "(\<exists>ev. scan_record py0 (scan_keywords py0 (ascii ''tritanium'')) types_jsonl line_34 = Some ev) \<and>
   search py0 [row_34] (ascii ''tritanium'') 1000 = Inr [result_of_row row_34]"
proof -
  define kvs where "kvs = [(ascii ''_key'', JInt 34),
     (ascii ''name'', JObj [(ascii ''en'', JStr (ascii ''Tritanium''))])]"
  define e where "e = \<lparr>e_id = ascii ''34'', e_file = types_jsonl, e_name_zh = JStr [],
     e_name_en = JStr (ascii ''Tritanium''), e_search_text = ascii ''34  tritanium'', e_json = line_34\<rparr>"
  have 1: "loads py0 line_34 = Some (JObj kvs)"
    by (simp add: loads_34 record_34_def fields_34_def kvs_def)
  have 2: "resolve_names (lookup_default kvs (ascii ''name'') (JObj [])) = (JStr (ascii ''Tritanium''), JStr [])"
    by (simp add: kvs_def lookup_default_def ascii_def)
  have 4: "\<forall>kw\<in>set (scan_keywords py0 (ascii ''tritanium'')). sublist kw (lower py0 (ascii ''Tritanium'' @ [32] @ []))"
    by (simp only: scan_keywords_tritanium) (simp add: lower_py0 ascii_fold_def ascii_def)
  have 5: "ascii ''34'' = (if resolve_id kvs \<noteq> JNull then py_str py0 (resolve_id kvs) else [])"
    by (simp add: kvs_def resolve_id_def lookup_default_def py_or_def str_int_def digits.simps ascii_def)
  have 6: "lower py0 (ascii ''Tritanium'' @ [32] @ []) = lower py0 (ascii ''Tritanium'') @ [32] @ lower py0 []"
    by (simp add: lower_py0 ascii_fold_def)
  have 7: "lower py0 (ascii ''34'' @ [32] @ [] @ [32] @ ascii ''Tritanium'') =
      lower py0 (ascii ''34'') @ [32] @ lower py0 [] @ [32] @ lower py0 (ascii ''Tritanium'')"
    by (simp add: lower_py0 ascii_fold_def)
  have 8: "index_record py0 types_jsonl line_34 = Some e"
    by (simp add: index_record_34 e_def)
  have 9: "entry_ok e" unfolding e_def by (rule entry_ok_34)
  have 10: "no_nul (e_search_text e)" by (simp add: e_def no_nul_def ascii_def)
  have r: "entry_row e = row_34"
    using bind_entry_ok [OF 9] bind_34 by (simp add: e_def)
  from direct_scan_match_is_indexed_match [OF 1 2 searchable_tritanium 4 5 6 7 8 9 10]
  show ?thesis by (simp add: r)
qed

text \<open>
  C8 as stated fails. For the row and the record of \<open>line_34\<close>, the keyword \<open>34\<close> is
  neither a substring nor a subsequence of the names, so the scan drops the record, while
  the search of the index returns the row. For the empty keyword the scan keeps the
  record and the search of the index raises.
\<close>

theorem scan_and_search_differ_counterexample:
  "build_index py0 [] (Some [(types_jsonl, Readable [line_34])]) = ([row_34], Inr True) \<and>
   scan_record py0 (scan_keywords py0 (ascii ''34'')) types_jsonl line_34 = None \<and>
   \<not> subseq (ascii ''34'') (lower py0 (ascii ''Tritanium'' @ [32] @ [])) \<and>
   search py0 [row_34] (ascii ''34'') 1000 = Inr [result_of_row row_34] \<and>
   (\<exists>ev. scan_record py0 (scan_keywords py0 []) types_jsonl line_34 = Some ev) \<and>
   search py0 [row_34] [] 1000 = Inl OperationalError"
proof -
  have n: "\<not> subseq (ascii ''34'') (lower py0 (ascii ''Tritanium'' @ [32] @ []))"
    by (simp add: lower_py0 ascii_fold_def ascii_def)
  then have m: "\<not> kw_matches (lower py0 (ascii ''Tritanium'' @ [32] @ [])) (ascii ''34'')"
    using sublist_imp_subseq by (auto simp: kw_matches_iff)
  have a: "scan_record py0 [ascii ''34''] types_jsonl line_34 = None"
    using m by (simp add: scan_record_def loads_34 record_34_def fields_34_def lookup_default_def Let_def ascii_def)
  have b: "\<exists>ev. scan_record py0 [] types_jsonl line_34 = Some ev"
    by (simp add: scan_record_def loads_34 record_34_def fields_34_def lookup_default_def Let_def ascii_def)
  have "search py0 [row_34] (ascii ''34'') 1000 =
      Inr (map result_of_row (sql_limit 1000 (matching_rows py0 [row_34] (ascii ''34''))))"
    by (rule search_eq [OF searchable_34]) simp_all
  then have c: "search py0 [row_34] (ascii ''34'') 1000 = Inr [result_of_row row_34]"
    using row_34_matches_34 by (simp only: keywords_34 matching_rows_def) (simp add: sql_limit_def)
  have d: "search py0 [row_34] [] 1000 = Inl OperationalError"
    by (rule search_no_keywords [OF keywords_empty])
  from build_34 a n b c d show ?thesis
    by (simp only: scan_keywords_34 scan_keywords_empty) simp
qed

section \<open>The change log of one manifest line\<close>


lemma py_set_list: "list_all hashable xs \<Longrightarrow> py_set (JArr xs) = Some (set_elems xs)"
  by (simp add: py_set_def)


text \<open>The table of a new file: every record with a hashable key is written as added.\<close>

lemma file_added_lines:
  assumes "line \<noteq> []" and "loads B line = Some (JObj m)"
    and "lookup_default m (ascii ''_key'') JNull = key"
    and "\<not> py_eq key (JStr (ascii ''_meta''))"
    and "lookup_default m (ascii ''added'') (JArr []) = JArr []"
    and "lookup_default m (ascii ''changed'') (JArr []) = JArr []"
    and "lookup_default m (ascii ''removed'') (JArr []) = JArr []"
    and "truthy (lookup_default m (ascii ''fileAdded'') (JBool False))"
    and "source_file_of B sde_dir key = Some (Readable [lx, ly])"
    and "loads B lx = Some (JObj rx)" and "hashable (lookup_default rx (ascii ''_key'') JNull)"
    and "loads B ly = Some (JObj ry)" and "hashable (lookup_default ry (ascii ''_key'') JNull)"
    and "set_order B [] = []"
  shows "manifest_lines_gui B sde_dir line =
       [dumps B (tagged_record rx key ''added'') @ [10],
        dumps B (tagged_record ry key ''added'') @ [10]]"
    and "manifest_lines B sde_dir line = []"
  using assms
  by (simp_all add: manifest_lines_gui_def manifest_lines_def py_set_def changed_line_gui_def
      py_member_def map_filter_simps Let_def)






lemma manifest_meta: "manifest_lines py0 d line_meta = []" "manifest_lines_gui py0 d line_meta = []"
proof -
  have "line_meta \<noteq> []" by (simp add: line_meta_def ascii_def)
  moreover have "lookup_default [(ascii ''_key'', JStr (ascii ''_meta'')), (ascii ''buildNumber'', JInt 100),
      (ascii ''releaseDate'', JStr (ascii ''2026-01-01T11:00:00Z''))] (ascii ''_key'') JNull = JStr (ascii ''_meta'')"
    by (simp add: lookup_default_def)
  ultimately show "manifest_lines py0 d line_meta = []" "manifest_lines_gui py0 d line_meta = []"
    by (simp_all add: manifest_lines_def manifest_lines_gui_def loads_meta record_meta_def fields_meta_def)
qed

lemma manifest_new:
  "manifest_lines_gui py0 (Some [(sde_jsonl, Readable [line_sde_100]),
       (newTable_jsonl, Readable [line_34, line_35])]) line_new = [out_new_34, out_new_35]"
  "manifest_lines py0 (Some [(sde_jsonl, Readable [line_sde_100]),
       (newTable_jsonl, Readable [line_34, line_35])]) line_new = []"
proof -
  define m where "m = [(ascii ''_key'', JStr (ascii ''newTable'')), (ascii ''fileAdded'', JBool True)]"
  define r34 where "r34 = [(ascii ''_key'', JInt 34),
     (ascii ''name'', JObj [(ascii ''en'', JStr (ascii ''Tritanium''))])]"
  define r35 where "r35 = [(ascii ''_key'', JInt 35),
     (ascii ''name'', JObj [(ascii ''en'', JStr (ascii ''Tritanium''))])]"
  have 1: "line_new \<noteq> []" by (simp add: line_new_def ascii_def)
  have 2: "loads py0 line_new = Some (JObj m)" by (simp add: loads_new record_new_def fields_new_def m_def)
  have 3: "lookup_default m (ascii ''_key'') JNull = JStr (ascii ''newTable'')"
    by (simp add: m_def lookup_default_def)
  have 4: "\<not> py_eq (JStr (ascii ''newTable'')) (JStr (ascii ''_meta''))" by (simp add: ascii_def)
  have 5: "lookup_default m (ascii ''added'') (JArr []) = JArr []"
    "lookup_default m (ascii ''changed'') (JArr []) = JArr []"
    "lookup_default m (ascii ''removed'') (JArr []) = JArr []"
    by (simp_all add: m_def lookup_default_def ascii_def)
  have 6: "truthy (lookup_default m (ascii ''fileAdded'') (JBool False))"
    by (simp add: m_def lookup_default_def ascii_def)
  have l: "loads py0 line_34 = Some (JObj r34)" "loads py0 line_35 = Some (JObj r35)"
    by (simp_all add: loads_34 loads_35 record_34_def fields_34_def record_35_def fields_35_def r34_def r35_def)
  have k: "hashable (lookup_default r34 (ascii ''_key'') JNull)"
    "hashable (lookup_default r35 (ascii ''_key'') JNull)"
    by (simp_all add: lookup_default_def r34_def r35_def)
  have o: "set_order py0 [] = []" by (rule set_order_py0)
  note f = file_added_lines [OF 1 2 3 4 5 6 source_new l(1) k(1) l(2) k(2) o]
  have e: "dumps py0 (tagged_record r34 (JStr (ascii ''newTable'')) ''added'') @ [10] = out_new_34"
    "dumps py0 (tagged_record r35 (JStr (ascii ''newTable'')) ''added'') @ [10] = out_new_35"
    by (simp_all only: dumps_py0 dumps_new_34 dumps_new_35 r34_def r35_def)
  from f(1) show "manifest_lines_gui py0 (Some [(sde_jsonl, Readable [line_sde_100]),
       (newTable_jsonl, Readable [line_34, line_35])]) line_new = [out_new_34, out_new_35]"
    by (simp only: e)
  from f(2) show "manifest_lines py0 (Some [(sde_jsonl, Readable [line_sde_100]),
       (newTable_jsonl, Readable [line_34, line_35])]) line_new = []" .
qed

section \<open>The change log of a run\<close>

lemma sde_append_lines: "sde (append_lines name ls s) = sde s"
  by (simp add: append_lines_def)

lemma sde_truncate_file: "sde (truncate_file name s) = sde s"
  by (simp add: truncate_file_def)

lemma foldl_append_lines:
  "updates s name = Some old \<Longrightarrow>
   foldl (\<lambda>s' line. append_lines name (F (sde s') line) s') s response =
     s\<lparr>updates := (updates s)(name \<mapsto> old @ concat (map (F (sde s)) response))\<rparr>"
proof (induction response arbitrary: s old)
  case Nil
  then have "(updates s)(name \<mapsto> old) = updates s" by (simp add: fun_upd_idem)
  then show ?case by simp
next
  case (Cons line response)
  define s1 where "s1 = append_lines name (F (sde s) line) s"
  have s1: "s1 = s\<lparr>updates := (updates s)(name \<mapsto> old @ F (sde s) line)\<rparr>"
    using Cons.prems by (simp add: s1_def append_lines_def)
  then have "updates s1 name = Some (old @ F (sde s) line)" by simp
  note step = Cons.IH [OF this]
  have "foldl (\<lambda>s' line. append_lines name (F (sde s') line) s') s (line # response) =
      foldl (\<lambda>s' line. append_lines name (F (sde s') line) s') s1 response"
    by (simp add: s1_def)
  also have "\<dots> =
      s1\<lparr>updates := (updates s1)(name \<mapsto> (old @ F (sde s) line) @ concat (map (F (sde s1)) response))\<rparr>"
    by (rule step)
  also have "\<dots> = s\<lparr>updates := (updates s)(name \<mapsto> old @ concat (map (F (sde s)) (line # response)))\<rparr>"
    by (simp add: s1)
  finally show ?case .
qed

lemma rewrite_log:
  "foldl (\<lambda>s' line. append_lines name (F (sde s') line) s') (truncate_file name s) response =
     s\<lparr>updates := (updates s)(name \<mapsto> concat (map (F (sde s)) response))\<rparr>"
proof -
  have "updates (truncate_file name s) name = Some []" by (simp add: truncate_file_def)
  from foldl_append_lines [OF this] show ?thesis
    by (simp add: sde_truncate_file) (simp add: truncate_file_def)
qed








lemma update_new: "update_SDE py0 up_new fs_new = Inr fs_new"
  by (simp add: update_SDE_def read_new fs_new_def sde_jsonl_def [symmetric] readline_def
      loads_sde_100 build_100)

text \<open>
  C2. The change manifest announces the new table \<open>newTable\<close> with \<open>fileAdded\<close> true and
  no id lists, and the table file holds two records. \<open>UpdateWorker.get_SDE_update\<close> of
  src/gui/main_window.py writes both records with status \<open>added\<close>. \<open>get_SDE_update\<close>
  of src/core/eve_SDE.py does not read \<open>fileAdded\<close>: it skips the line and leaves the
  change log empty.
\<close>

theorem file_added_only_in_worker:
  "get_SDE_update py0 up_new fs_new = (fs_new\<lparr>updates := [log_100 \<mapsto> []]\<rparr>, None) \<and>
   UpdateWorker_get_SDE_update py0 up_new (JInt 100) (JStr (ascii ''2026-01-01T11:00:00Z'')) fs_new =
     (fs_new\<lparr>updates := [log_100 \<mapsto> [out_new_34, out_new_35]]\<rparr>, None)"
proof -
  have s: "sde fs_new = Some [(sde_jsonl, Readable [line_sde_100]),
       (newTable_jsonl, Readable [line_34, line_35])]"
    "updates fs_new = Map.empty"  
    by (simp_all add: fs_new_def)
  have "get_SDE_update py0 up_new fs_new = (fs_new\<lparr>updates := [log_100 \<mapsto> []]\<rparr>, None)"
    by (simp add: get_SDE_update_def read_new update_new build_name_100 changes_new log_name_100
        manifest_meta sde_append_lines sde_truncate_file s manifest_new)
      (simp add: append_lines_def truncate_file_def s)
  moreover have "UpdateWorker_get_SDE_update py0 up_new (JInt 100) (JStr (ascii ''2026-01-01T11:00:00Z'')) fs_new =
     (fs_new\<lparr>updates := [log_100 \<mapsto> [out_new_34, out_new_35]]\<rparr>, None)"
    by (simp add: UpdateWorker_get_SDE_update_def build_name_100 changes_new log_name_100
        manifest_meta sde_append_lines sde_truncate_file s manifest_new)
      (simp add: append_lines_def truncate_file_def s)
  ultimately show ?thesis by simp
qed


lemma UpdateWorker_get_SDE_update_done:
  "changes up (py_str B build) = Some response \<Longrightarrow>
   UpdateWorker_get_SDE_update B up build (JStr d) s =
     (s\<lparr>updates := (updates s)(changes_file_name d \<mapsto>
         concat (map (manifest_lines_gui B (sde s)) response))\<rparr>, None)"
  by (simp add: UpdateWorker_get_SDE_update_def rewrite_log Let_def)

text \<open>The same holds of \<open>UpdateWorker.get_SDE_update\<close> of src/gui/main_window.py.\<close>

lemma worker_sync_twice_same_order:
  "updates (fst (UpdateWorker_get_SDE_update B up build d
       (fst (UpdateWorker_get_SDE_update B up build d s)))) =
     updates (fst (UpdateWorker_get_SDE_update B up build d s))"
proof (cases "changes up (py_str B build)")
  case None
  then show ?thesis by (simp add: UpdateWorker_get_SDE_update_def)
next
  case (Some response)
  show ?thesis
  proof (cases d)
    case (JStr x)
    with Some show ?thesis by (simp add: UpdateWorker_get_SDE_update_done)
  qed (use Some in \<open>simp_all add: UpdateWorker_get_SDE_update_def\<close>)
qed















end
